theory Spec2Isabelle
  imports Complex_Main "HOL-Library.AList"
begin

section \<open>Python values, exceptions and the remote ODK Central client\<close>

text \<open>
  The module \<open>app/central/central_crud.py\<close> relays operations to an ODK Central
  server through the classes \<open>OdkProject\<close>, \<open>OdkForm\<close> and \<open>CSVDump\<close> of the
  library \<open>osm_fieldwork\<close>. The library is an external collaborator: each of its
  calls is a field of the record \<open>remote\<close> below, returning either the exception it
  raised (\<open>Inl\<close>) or its value (\<open>Inr\<close>). Every call that reaches the server is
  appended to a trace of events, so that what was sent, and in which order, can be
  stated. Calls to the logger have no effect on results and are left out, except
  for the warning of \<open>convert_csv\<close>.
\<close>

text \<open>
  The detail of a FastAPI \<open>HTTPException\<close> is a string in most places and the dict
  \<open>{"message": ...}\<close> in \<open>create_odk_xform\<close>.
\<close>

datatype detail = Text string | Message string

text \<open>
  Exceptions caught by \<open>except Exception\<close>: the \<open>HTTPException\<close> the module raises
  itself, and any other subclass of \<open>Exception\<close>, kept with its class name and the
  string \<open>str(e)\<close> gives.
\<close>

datatype exn = HTTPException int detail | Error string string

text \<open>Values of a decoded JSON response. A float is kept as the number it denotes.\<close>

datatype pyval =
    PyNone
  | PyInt int
  | PyFloat rat
  | PyStr string
  | PyList "pyval list"
  | PyDict "(string \<times> pyval) list"

text \<open>\<open>str(n)\<close> for an integer: decimal digits, with a minus sign when negative.\<close>

definition digit_char :: "nat \<Rightarrow> char" where
  "digit_char d = char_of (48 + d)"

fun str_nat :: "nat \<Rightarrow> string" where
  "str_nat n = (if n < 10 then [digit_char n] else str_nat (n div 10) @ [digit_char (n mod 10)])"

declare str_nat.simps [simp del]

definition str_int :: "int \<Rightarrow> string" where
  "str_int i = (if i < 0 then CHR ''-'' # str_nat (nat (- i)) else str_nat (nat i))"

definition detail_str :: "detail \<Rightarrow> string" where
  "detail_str d = (case d of Text s \<Rightarrow> s | Message s \<Rightarrow> ''{'' @ [CHR 0x27] @ ''message'' @ [CHR 0x27] @ '': '' @ [CHR 0x27] @ s @ [CHR 0x27] @ ''}'')"

text \<open>
  \<open>str(e)\<close>, as the f-string \<open>f"...: {e}"\<close> formats it. Starlette's \<open>HTTPException\<close>
  prints as \<open>"<status_code>: <detail>"\<close>.
\<close>

definition exn_str :: "exn \<Rightarrow> string" where
  "exn_str e = (case e of HTTPException c d \<Rightarrow> str_int c @ '': '' @ detail_str d | Error cls msg \<Rightarrow> msg)"

text \<open>\<open>ODKCentralDecrypted\<close>: the credentials of one server.\<close>

record creds =
  odk_central_url :: string
  odk_central_user :: string
  odk_central_password :: string

text \<open>
  The external collaborators. \<open>settings\<close> holds \<open>settings.ODK_CENTRAL_URL\<close>,
  \<open>ODK_CENTRAL_USER\<close> and \<open>ODK_CENTRAL_PASSWD\<close>. \<open>OdkProject\<close> and \<open>OdkForm\<close> are
  the constructors: \<open>Some e\<close> when constructing the client raises \<open>e\<close>. A client
  object is represented by the credentials it was built from, the first argument
  of every method.
\<close>

record remote =
  settings :: creds
  OdkProject :: "creds \<Rightarrow> exn option"
  OdkForm :: "creds \<Rightarrow> exn option"
  createProject :: "creds \<Rightarrow> string \<Rightarrow> exn + pyval"
  deleteProject :: "creds \<Rightarrow> int \<Rightarrow> exn + pyval"
  createForm :: "creds \<Rightarrow> int \<Rightarrow> string \<Rightarrow> string \<Rightarrow> bool \<Rightarrow> exn + int"
  uploadMedia :: "creds \<Rightarrow> int \<Rightarrow> string \<Rightarrow> string \<Rightarrow> bool \<Rightarrow> exn option"
  publishForm :: "creds \<Rightarrow> int \<Rightarrow> string \<Rightarrow> exn + int"

text \<open>What the module does to the outside, in order: remote calls and file operations.\<close>

datatype event =
    CreateProject creds string
  | DeleteProject creds int
  | CreateForm creds int string string bool
  | UploadMedia creds int string string bool
  | PublishForm creds int string
  | Mkdir string
  | WriteFile string string
  | Unlink string

subsection \<open>Connection helpers\<close>

text \<open>
  \<open>if odk_central: ... else: ...\<close>: credentials passed by the caller win, the
  process-wide settings are the fallback.
\<close>

definition resolve_creds :: "remote \<Rightarrow> creds option \<Rightarrow> creds" where
  "resolve_creds env odk_central = (case odk_central of Some oc \<Rightarrow> oc | None \<Rightarrow> settings env)"

definition get_odk_project :: "remote \<Rightarrow> creds option \<Rightarrow> exn + creds" where
  "get_odk_project env odk_central =
     (let c = resolve_creds env odk_central in
      case OdkProject env c of
        Some e \<Rightarrow> Inl (HTTPException 500 (Text (''Error creating project on ODK Central: '' @ exn_str e)))
      | None \<Rightarrow> Inr c)"

definition get_odk_form :: "remote \<Rightarrow> creds option \<Rightarrow> exn + creds" where
  "get_odk_form env odk_central =
     (let c = resolve_creds env odk_central in
      case OdkForm env c of
        Some e \<Rightarrow> Inl (HTTPException 500 (Text (''Error creating project on ODK Central: '' @ exn_str e)))
      | None \<Rightarrow> Inr c)"

subsection \<open>Projects\<close>

text \<open>\<open>isinstance(result, dict)\<close> and \<open>result.get("code")\<close> (\<open>None\<close> for a missing key).\<close>

definition is_dict :: "pyval \<Rightarrow> bool" where
  "is_dict v = (case v of PyDict _ \<Rightarrow> True | _ \<Rightarrow> False)"

definition dict_get :: "pyval \<Rightarrow> string \<Rightarrow> pyval" where
  "dict_get v k = (case v of PyDict kvs \<Rightarrow> (case map_of kvs k of Some x \<Rightarrow> x | None \<Rightarrow> PyNone) | _ \<Rightarrow> PyNone)"

text \<open>
  \<open>x == 401.2\<close>: numbers compare by value, anything else is unequal to a float.
  A float is kept as the decimal it was read from, so two decimals that round
  to the same double are not identified here.
\<close>

definition eq_401_2 :: "pyval \<Rightarrow> bool" where
  "eq_401_2 v = (case v of PyFloat q \<Rightarrow> q = 2006 / 5 | PyInt i \<Rightarrow> of_int i = (2006 / 5 :: rat) | _ \<Rightarrow> False)"

text \<open>
  \<open>project.createProject(n)\<close>: what the server answers to the name it is sent,
  and the call, with that name, as the event it leaves in the trace.
\<close>

definition call_createProject :: "remote \<Rightarrow> creds \<Rightarrow> string \<Rightarrow> (exn + pyval) \<times> event list" where
  "call_createProject env project n = (createProject env project n, [CreateProject project n])"

text \<open>
  The body of the \<open>try\<close> block of \<open>create_odk_project\<close>: the call with
  \<open>f"FMTM {name}"\<close>, then the check of the response, whose \<open>raise\<close> happens inside
  the \<open>try\<close>.
\<close>

definition create_odk_project_try :: "remote \<Rightarrow> creds \<Rightarrow> string \<Rightarrow> (exn + pyval) \<times> event list" where
  "create_odk_project_try env project name =
     (case call_createProject env project (''FMTM '' @ name) of
        (Inl e, tr) \<Rightarrow> (Inl e, tr)
      | (Inr result, tr) \<Rightarrow>
          (if is_dict result \<and> eq_401_2 (dict_get result ''code'')
           then Inl (HTTPException 500 (Text ''Could not authenticate to odk central.''))
           else Inr result,
           tr))"

text \<open>
  \<open>create_odk_project\<close>: \<open>get_odk_project\<close> is called outside the \<open>try\<close>; the
  handler \<open>except Exception as e\<close> wraps whatever the body raised. The trace is
  the one the body left.
\<close>

definition create_odk_project :: "remote \<Rightarrow> string \<Rightarrow> creds option \<Rightarrow> (exn + pyval) \<times> event list" where
  "create_odk_project env name odk_central =
     (case get_odk_project env odk_central of
        Inl e \<Rightarrow> (Inl e, [])
      | Inr project \<Rightarrow>
          (case create_odk_project_try env project name of
             (Inl e, tr) \<Rightarrow>
               (Inl (HTTPException 500 (Text (''Error creating project on ODK Central: '' @ exn_str e))), tr)
           | (Inr result, tr) \<Rightarrow> (Inr result, tr)))"

text \<open>
  \<open>delete_odk_project\<close>: the whole body, the connection included, is inside the
  \<open>try\<close>; the handler returns a string.
\<close>

definition delete_odk_project_try :: "remote \<Rightarrow> int \<Rightarrow> creds option \<Rightarrow> (exn + pyval) \<times> event list" where
  "delete_odk_project_try env project_id odk_central =
     (case get_odk_project env odk_central of
        Inl e \<Rightarrow> (Inl e, [])
      | Inr project \<Rightarrow> (deleteProject env project project_id, [DeleteProject project project_id]))"

definition delete_odk_project :: "remote \<Rightarrow> int \<Rightarrow> creds option \<Rightarrow> (exn + pyval) \<times> event list" where
  "delete_odk_project env project_id odk_central =
     (case delete_odk_project_try env project_id odk_central of
        (Inl e, tr) \<Rightarrow> (Inr (PyStr ''Could not delete project from central odk''), tr)
      | (Inr result, tr) \<Rightarrow> (Inr result, tr))"

subsection \<open>Paths and the local file system\<close>

text \<open>
  A path is the string \<open>str(path)\<close> gives. \<open>path_name\<close> is \<open>PurePath.name\<close>, the
  last component; \<open>path_stem\<close> is \<open>PurePath.stem\<close>: the name without its last
  suffix, where a dot at the start or at the end of the name starts no suffix;
  \<open>path_parent\<close> is \<open>parents[0]\<close> of an absolute path. (\<open>pathlib\<close> also collapses
  repeated slashes; that changes no file a path names and is not modelled.)
\<close>

definition path_name :: "string \<Rightarrow> string" where
  "path_name p = rev (takeWhile (\<lambda>c. c \<noteq> CHR ''/'') (rev p))"

definition path_stem :: "string \<Rightarrow> string" where
  "path_stem p =
     (let name = path_name p;
          suffix = takeWhile (\<lambda>c. c \<noteq> CHR ''.'') (rev name);
          i = length name - length suffix - 1
      in if CHR ''.'' \<in> set name \<and> 0 < i \<and> i < length name - 1 then take i name else name)"

definition path_parent :: "string \<Rightarrow> string" where
  "path_parent p = rev (drop 1 (dropWhile (\<lambda>c. c \<noteq> CHR ''/'') (rev p)))"

text \<open>
  The local state: the files that exist, with their contents, and the trace of
  what was done so far.
\<close>

record world =
  files :: "string \<Rightarrow> string option"
  trace :: "event list"

definition emit :: "event \<Rightarrow> world \<Rightarrow> world" where
  "emit ev w = w\<lparr>trace := trace w @ [ev]\<rparr>"

text \<open>
  Library functions that work on data: \<open>bytes.decode("utf-8")\<close>, which raises
  \<open>UnicodeDecodeError\<close> on bytes that are not UTF-8.
\<close>

record codec =
  decode_utf8 :: "string \<Rightarrow> exn + string"

subsection \<open>Publishing a form\<close>

text \<open>\<open>Path(f"/tmp/fmtm/odk/{odk_id}/{xform_category}.geojson")\<close>\<close>

definition geojson_path_of :: "int \<Rightarrow> string \<Rightarrow> string" where
  "geojson_path_of odk_id xform_category =
     ''/tmp/fmtm/odk/'' @ str_int odk_id @ ''/'' @ xform_category @ ''.geojson''"

text \<open>
  Lines 242 to 258 of \<open>create_odk_xform\<close>, reached when \<open>createForm\<close> returned 200
  or 409: create the directory, open the file for writing (which creates or
  truncates it), decode and write the geodata, upload it, unlink it, publish. None
  of these statements is inside a \<open>try\<close>: an exception of \<open>decode\<close>, \<open>uploadMedia\<close>
  or \<open>publishForm\<close> ends the function where it is raised. The local file
  operations (\<open>mkdir\<close>, \<open>open\<close>, \<open>write\<close>, \<open>unlink\<close>) are taken to succeed.
\<close>

definition stage_attach_publish ::
  "remote \<Rightarrow> codec \<Rightarrow> creds \<Rightarrow> int \<Rightarrow> string \<Rightarrow> string \<Rightarrow> string \<Rightarrow> bool \<Rightarrow> world \<Rightarrow> (exn + int) \<times> world" where
  "stage_attach_publish env cd xform odk_id xform_path xform_category feature_geojson
       convert_to_draft_when_publishing w =
     (let geojson_path = geojson_path_of odk_id xform_category;
          w1 = emit (Mkdir (path_parent geojson_path)) w;
          w2 = w1\<lparr>files := (files w1)(geojson_path \<mapsto> [])\<rparr>
      in case decode_utf8 cd feature_geojson of
           Inl e \<Rightarrow> (Inl e, w2)
         | Inr txt \<Rightarrow>
             (let w3 = emit (WriteFile geojson_path txt) (w2\<lparr>files := (files w2)(geojson_path \<mapsto> txt)\<rparr>);
                  w4 = emit (UploadMedia xform odk_id (path_stem xform_path) geojson_path
                               convert_to_draft_when_publishing) w3
              in case uploadMedia env xform odk_id (path_stem xform_path) geojson_path
                        convert_to_draft_when_publishing of
                   Some e \<Rightarrow> (Inl e, w4)
                 | None \<Rightarrow>
                     (let w5 = emit (Unlink geojson_path) (w4\<lparr>files := (files w4)(geojson_path := None)\<rparr>);
                          w6 = emit (PublishForm xform odk_id (path_stem xform_path)) w5
                      in (publishForm env xform odk_id (path_stem xform_path), w6))))"

text \<open>
  \<open>create_odk_xform\<close>. The connection is wrapped in a \<open>try\<close> of its own; the result
  of \<open>createForm\<close> other than 200 and 409 is returned at once.
\<close>

definition create_odk_xform ::
  "remote \<Rightarrow> codec \<Rightarrow> int \<Rightarrow> string \<Rightarrow> string \<Rightarrow> string \<Rightarrow> creds \<Rightarrow> bool \<Rightarrow> bool \<Rightarrow> world \<Rightarrow> (exn + int) \<times> world" where
  "create_odk_xform env cd odk_id xform_path xform_category feature_geojson odk_credentials
       create_draft convert_to_draft_when_publishing w =
     (case get_odk_form env (Some odk_credentials) of
        Inl e \<Rightarrow> (Inl (HTTPException 500 (Message ''Connection failed to odk central'')), w)
      | Inr xform \<Rightarrow>
          (let w1 = emit (CreateForm xform odk_id (path_stem xform_path) xform_path create_draft) w
           in case createForm env xform odk_id (path_stem xform_path) xform_path create_draft of
                Inl e \<Rightarrow> (Inl e, w1)
              | Inr result \<Rightarrow>
                  if result \<noteq> 200 \<and> result \<noteq> 409 then (Inr result, w1)
                  else stage_attach_publish env cd xform odk_id xform_path xform_category
                         feature_geojson convert_to_draft_when_publishing w1))"

section \<open>XForm documents\<close>

text \<open>
  An \<open>xml.etree.ElementTree.Element\<close>: the tag in Clark notation (\<open>{uri}local\<close>), the
  attribute dict in insertion order, the text before the first child, the text
  after the end tag, and the children.
\<close>

datatype element =
  Element (tag: string) (attrib: "(string \<times> string) list") (elem_text: "string option")
    (elem_tail: "string option") (children: "element list")

text \<open>
  The dict \<open>namespaces\<close> of \<open>generate_updated_xform\<close> and \<open>test_form_validity\<close>, and
  the tag a path step \<open>prefix:local\<close> selects with it.
\<close>

definition namespaces :: "(string \<times> string) list" where
  "namespaces = [(''h'', ''http://www.w3.org/1999/xhtml''),
                 (''odk'', ''http://www.opendatakit.org/xforms''),
                 (''xforms'', ''http://www.w3.org/2002/xforms'')]"

definition clark :: "string \<Rightarrow> string \<Rightarrow> string" where
  "clark prefix local =
     (case map_of namespaces prefix of
        Some uri \<Rightarrow> ''{'' @ uri @ ''}'' @ local
      | None \<Rightarrow> prefix @ '':'' @ local)"

text \<open>
  \<open>elem.find(tag)\<close> is the first child with that tag or \<open>None\<close>, \<open>elem.findall(tag)\<close>
  all children with that tag in document order. \<open>bool(elem)\<close> is \<open>len(elem) != 0\<close>:
  an element without children is falsy.
\<close>

definition find_child :: "string \<Rightarrow> element \<Rightarrow> element option" where
  "find_child t e = List.find (\<lambda>c. tag c = t) (children e)"

definition findall :: "string \<Rightarrow> element \<Rightarrow> element list" where
  "findall t e = filter (\<lambda>c. tag c = t) (children e)"

definition truthy :: "element \<Rightarrow> bool" where
  "truthy e = (children e \<noteq> [])"

definition attr :: "string \<Rightarrow> element \<Rightarrow> string option" where
  "attr k e = map_of (attrib e) k"

text \<open>\<open>e.attrib[k] = v\<close>: an existing key keeps its place, a new key goes last.\<close>

definition set_attrib :: "string \<Rightarrow> string \<Rightarrow> element \<Rightarrow> element" where
  "set_attrib k v e = Element (tag e) (AList.update k v (attrib e)) (elem_text e) (elem_tail e) (children e)"

definition with_children :: "element list \<Rightarrow> element \<Rightarrow> element" where
  "with_children cs e = Element (tag e) (attrib e) (elem_text e) (elem_tail e) cs"

definition endswith :: "string \<Rightarrow> string \<Rightarrow> bool" where
  "endswith s suf = (length suf \<le> length s \<and> drop (length s - length suf) s = suf)"

subsection \<open>\<open>generate_updated_xform\<close>: the rewriting of the bindings\<close>

text \<open>
  Lines 480 to 486: the elements the loop visits. \<open>if head:\<close> and \<open>if model:\<close> test
  the truth value of the element found.
\<close>

definition instances :: "element \<Rightarrow> element list" where
  "instances doc =
     (case find_child (clark ''h'' ''head'') doc of
        None \<Rightarrow> []
      | Some head \<Rightarrow>
          if truthy head then
            (case find_child (clark ''xforms'' ''model'') head of
               None \<Rightarrow> []
             | Some model \<Rightarrow>
                 if truthy model then findall (clark ''xforms'' ''instance'') model else [])
          else [])"

text \<open>
  Lines 498 to 500, the body of \<open>for dt in data_tags\<close>, and lines 490 to 500, the
  body of \<open>for inst in instances\<close>. Attribute values of a parsed document are
  strings, so nothing in the body raises and the handler is never entered.
\<close>

definition rewrite_data :: "string \<Rightarrow> element \<Rightarrow> element" where
  "rewrite_data form_id dt = (if attr ''id'' dt \<noteq> None then set_attrib ''id'' form_id dt else dt)"

definition rewrite_src :: "string \<Rightarrow> element \<Rightarrow> element" where
  "rewrite_src form_category inst =
     (if attr ''src'' inst \<noteq> None then
        (let src_value = (case attr ''src'' inst of Some v \<Rightarrow> v | None \<Rightarrow> [])
         in if endswith src_value ''.geojson''
            then set_attrib ''src'' (''jr://file/'' @ form_category @ ''.geojson'') inst
            else inst)
      else inst)"

definition rewrite_instance :: "string \<Rightarrow> string \<Rightarrow> element \<Rightarrow> element" where
  "rewrite_instance form_id form_category inst =
     (let inst1 = rewrite_src form_category inst
      in with_children
           (map (\<lambda>c. if tag c = clark ''xforms'' ''data'' then rewrite_data form_id c else c)
                (children inst1))
           inst1)"

text \<open>
  The loop mutates the elements in place. The tree after the loop is the tree
  before it with the elements of \<open>instances\<close> replaced by their mutated versions:
  the instance children of the model that \<open>find\<close> returned, inside the head that
  \<open>find\<close> returned. \<open>map_first\<close> replaces the first element of a list that
  satisfies a test, the one \<open>find\<close> returns.
\<close>

fun map_first :: "('a \<Rightarrow> bool) \<Rightarrow> ('a \<Rightarrow> 'a) \<Rightarrow> 'a list \<Rightarrow> 'a list" where
  "map_first P f [] = []"
| "map_first P f (x # xs) = (if P x then f x # xs else x # map_first P f xs)"

definition update_model :: "string \<Rightarrow> string \<Rightarrow> element \<Rightarrow> element" where
  "update_model form_id form_category model =
     (if truthy model then
        with_children
          (map (\<lambda>c. if tag c = clark ''xforms'' ''instance''
                     then rewrite_instance form_id form_category c else c)
               (children model))
          model
      else model)"

definition update_head :: "string \<Rightarrow> string \<Rightarrow> element \<Rightarrow> element" where
  "update_head form_id form_category head =
     (if truthy head then
        with_children
          (map_first (\<lambda>c. tag c = clark ''xforms'' ''model'') (update_model form_id form_category)
             (children head))
          head
      else head)"

definition update_instances :: "string \<Rightarrow> string \<Rightarrow> element \<Rightarrow> element" where
  "update_instances form_id form_category doc =
     with_children
       (map_first (\<lambda>c. tag c = clark ''h'' ''head'') (update_head form_id form_category) (children doc))
       doc"

text \<open>
  The libraries around the rewriting: \<open>xls2xform_convert\<close> reads the file at a path
  and gives the XML it writes, or raises; \<open>ElementTree.fromstring\<close> parses or raises
  \<open>ParseError\<close>; \<open>ElementTree.tostring\<close> serialises.
\<close>

record xmllib =
  xls2xform_convert :: "(string \<Rightarrow> string option) \<Rightarrow> string \<Rightarrow> exn + string"
  fromstring :: "string \<Rightarrow> exn + element"
  tostring :: "element \<Rightarrow> string"

text \<open>
  Reading a file that does not exist raises \<open>FileNotFoundError\<close>. Opening a file
  for writing and writing to it are taken to succeed.
\<close>

definition read_file :: "world \<Rightarrow> string \<Rightarrow> exn + string" where
  "read_file w p = (case files w p of None \<Rightarrow> Inl (Error ''FileNotFoundError'' p) | Some c \<Rightarrow> Inr c)"

definition write_file :: "string \<Rightarrow> string \<Rightarrow> world \<Rightarrow> world" where
  "write_file p c w = emit (WriteFile p c) (w\<lparr>files := (files w)(p \<mapsto> c)\<rparr>)"

text \<open>Lines 413 to 436 of \<open>generate_updated_xform\<close>: obtaining the XML text.\<close>

definition read_xform :: "xmllib \<Rightarrow> string \<Rightarrow> string \<Rightarrow> string \<Rightarrow> world \<Rightarrow> (exn + string) \<times> world" where
  "read_xform lib input_path xform_path form_file_extension w =
     (if form_file_extension \<noteq> ''xml'' then
        (case xls2xform_convert lib (files w) input_path of
           Inl e \<Rightarrow> (Inl (HTTPException 400 (Text (''Couldn't convert '' @ input_path @ '' to an XForm!''))), w)
         | Inr xml \<Rightarrow>
             (let w1 = write_file xform_path xml w
              in if xml = [] then (Inl (HTTPException 400 (Text (xform_path @ '' is empty!''))), w1)
                 else (read_file w1 xform_path, w1)))
      else (read_file w input_path, w))"

text \<open>
  \<open>generate_updated_xform\<close>: read, parse, rewrite, serialise, write to \<open>xform_path\<close>,
  return \<open>str(xform_path)\<close>. The form identifier is \<open>str(xform_path.stem)\<close>.
\<close>

definition generate_updated_xform ::
  "xmllib \<Rightarrow> string \<Rightarrow> string \<Rightarrow> string \<Rightarrow> string \<Rightarrow> world \<Rightarrow> (exn + string) \<times> world" where
  "generate_updated_xform lib input_path xform_path form_file_extension form_category w =
     (case read_xform lib input_path xform_path form_file_extension w of
        (Inl e, w1) \<Rightarrow> (Inl e, w1)
      | (Inr data, w1) \<Rightarrow>
          (case fromstring lib data of
             Inl e \<Rightarrow> (Inl e, w1)
           | Inr doc \<Rightarrow>
               (let newxml = tostring lib (update_instances (path_stem xform_path) form_category doc)
                in (Inr xform_path, write_file xform_path newxml w1))))"

text \<open>
  What the properties below speak of. \<open>path_instances\<close>: every element at the path
  \<open>h:head/xforms:model/xforms:instance\<close> from the root. \<open>single_head_model\<close>: the
  document has at most one head and a head at most one model, as a form document
  does. \<open>descendants\<close>: every element below the root, in document order.
\<close>

definition path_instances :: "element \<Rightarrow> element list" where
  "path_instances doc =
     concat (map (\<lambda>h. concat (map (findall (clark ''xforms'' ''instance'')) (findall (clark ''xforms'' ''model'') h)))
                 (findall (clark ''h'' ''head'') doc))"

definition single_head_model :: "element \<Rightarrow> bool" where
  "single_head_model doc =
     (length (findall (clark ''h'' ''head'') doc) \<le> 1
      \<and> (\<forall>h \<in> set (findall (clark ''h'' ''head'') doc). length (findall (clark ''xforms'' ''model'') h) \<le> 1))"

fun descendants :: "element \<Rightarrow> element list" where
  "descendants (Element t a tx ta cs) = concat (map (\<lambda>c. c # descendants c) cs)"

subsection \<open>\<open>test_form_validity\<close>\<close>

text \<open>
  What \<open>test_form_validity\<close> returns: the dict
  \<open>{"required media": ..., "message": ...}\<close>, or a \<open>JSONResponse\<close> with the content
  \<open>{"message": ..., "possible_reason": ...}\<close> and a status code.
\<close>

datatype response =
    ResultDict (required_media: "string list") (message: string)
  | JSONResponse (content_message: string) (possible_reason: string) (status_code: int)

text \<open>\<open>s.split(sep)\<close> for a separator of one character: never an empty list.\<close>

fun split_on :: "char \<Rightarrow> string \<Rightarrow> string list" where
  "split_on sep [] = [[]]"
| "split_on sep (c # cs) =
     (if c = sep then [] # split_on sep cs
      else (case split_on sep cs of p # ps \<Rightarrow> (c # p) # ps | [] \<Rightarrow> [[c]]))"

text \<open>
  \<open>root.findall(".//xforms:instance[@src]", namespaces)\<close>: the descendants of the
  root, in document order, that are instances with a \<open>src\<close> attribute.
\<close>

definition findall_instances_src :: "element \<Rightarrow> element list" where
  "findall_instances_src doc =
     filter (\<lambda>e. tag e = clark ''xforms'' ''instance'' \<and> attr ''src'' e \<noteq> None) (descendants doc)"

text \<open>
  Lines 391 to 395, the body of the inner \<open>try\<close>: \<open>split(".")[1]\<close> raises
  \<open>IndexError\<close> when the \<open>src\<close> has no dot. \<open>Some name\<close> is the name appended to the
  list, \<open>None\<close> when nothing is appended.
\<close>

definition media_name :: "element \<Rightarrow> exn + string option" where
  "media_name inst =
     (case attr ''src'' inst of
        None \<Rightarrow> Inr None
      | Some src \<Rightarrow>
          (let parts = split_on CHR ''.'' src
           in if length parts \<le> 1 then Inl (Error ''IndexError'' ''list index out of range'')
              else if parts ! 1 = ''geojson'' then Inr (Some (last (split_on CHR ''/'' (parts ! 0))))
              else Inr None))"

text \<open>The loop \<open>for inst in instances\<close>; its handler is \<open>except Exception: continue\<close>.\<close>

fun collect_media :: "element list \<Rightarrow> string list \<Rightarrow> string list" where
  "collect_media [] geojson_list = geojson_list"
| "collect_media (inst # rest) geojson_list =
     (case media_name inst of
        Inl e \<Rightarrow> collect_media rest geojson_list
      | Inr None \<Rightarrow> collect_media rest geojson_list
      | Inr (Some geojson_name) \<Rightarrow> collect_media rest (geojson_list @ [geojson_name]))"

text \<open>The body of the outer \<open>try\<close>, lines 368 to 398.\<close>

definition test_form_validity_try :: "xmllib \<Rightarrow> string \<Rightarrow> string \<Rightarrow> world \<Rightarrow> (exn + response) \<times> world" where
  "test_form_validity_try lib xform_content form_type w =
     (let xlsform_path = ''/tmp/validate_form.'' @ form_type;
          outfile = ''/tmp/outfile.xml'';
          w1 = write_file xlsform_path xform_content w
      in case xls2xform_convert lib (files w1) xlsform_path of
           Inl e \<Rightarrow> (Inl e, w1)
         | Inr xml \<Rightarrow>
             (let w2 = write_file outfile xml w1
              in case read_file w2 outfile of
                   Inl e \<Rightarrow> (Inl e, w2)
                 | Inr data \<Rightarrow>
                     (case fromstring lib data of
                        Inl e \<Rightarrow> (Inl e, w2)
                      | Inr doc \<Rightarrow>
                          (Inr (ResultDict (collect_media (findall_instances_src doc) []) ''Your form is valid''),
                           w2))))"

text \<open>\<open>test_form_validity\<close>: the handler \<open>except Exception as e\<close> returns a response.\<close>

definition test_form_validity :: "xmllib \<Rightarrow> string \<Rightarrow> string \<Rightarrow> world \<Rightarrow> (exn + response) \<times> world" where
  "test_form_validity lib xform_content form_type w =
     (case test_form_validity_try lib xform_content form_type w of
        (Inl e, w') \<Rightarrow> (Inr (JSONResponse ''Your form is invalid'' (exn_str e) 400), w')
      | (Inr r, w') \<Rightarrow> (Inr r, w'))"

section \<open>Converting submissions\<close>

text \<open>
  A row of the CSV is a dict from column names to values. A feature, as
  \<open>CSVDump.createEntry\<close> returns it, is a dict whose values are dicts: \<open>attrs\<close>
  (with \<open>lat\<close> and \<open>lon\<close> when the row has coordinates) and \<open>tags\<close>.
\<close>

type_synonym entry = "(string \<times> string) list"

type_synonym feature = "(string \<times> (string \<times> string) list) list"

text \<open>
  The calls of \<open>CSVDump\<close> that compute: \<open>parse(filespec)\<close>, \<open>parse(filespec, data)\<close>
  and \<open>createEntry(entry)\<close>. \<open>epdb_st\<close> is \<open>import epdb; epdb.st()\<close>, which stops
  the process in an interactive debugger: \<open>None\<close> when the session is resumed,
  \<open>Some e\<close> when the import or the session raises \<open>e\<close>.
\<close>

record csvdump =
  parse_file :: "string \<Rightarrow> exn + entry list"
  parse_data :: "string \<Rightarrow> string \<Rightarrow> exn + entry list"
  createEntry :: "entry \<Rightarrow> exn + feature"
  epdb_st :: "exn option"

text \<open>
  The two output streams of the \<open>CSVDump\<close> object: the file each was created
  for, the features written so far, whether it was finished; and the records
  \<open>log.warning("Bad record! ...")\<close> reported.
\<close>

record csv_out =
  osm_file :: string
  osm :: "feature list"
  osm_finished :: bool
  geojson_file :: string
  geojson :: "feature list"
  geojson_finished :: bool
  warnings :: "feature list"

text \<open>
  The writers of the \<open>CSVDump\<close> object: each appends to, or finishes, its own
  stream. Writing is taken to succeed.
\<close>

definition writeOSM :: "feature \<Rightarrow> csv_out \<Rightarrow> csv_out" where
  "writeOSM feature st = st\<lparr>osm := osm st @ [feature]\<rparr>"

definition writeGeoJson :: "feature \<Rightarrow> csv_out \<Rightarrow> csv_out" where
  "writeGeoJson feature st = st\<lparr>geojson := geojson st @ [feature]\<rparr>"

definition finishOSM :: "csv_out \<Rightarrow> csv_out" where
  "finishOSM st = st\<lparr>osm_finished := True\<rparr>"

definition finishGeoJson :: "csv_out \<Rightarrow> csv_out" where
  "finishGeoJson st = st\<lparr>geojson_finished := True\<rparr>"

text \<open>Lines 583 and 585: \<open>csvin.writeOSM(feature)\<close>, then \<open>csvin.writeGeoJson(feature)\<close>.\<close>

definition write_both :: "feature \<Rightarrow> csv_out \<Rightarrow> csv_out" where
  "write_both feature st = writeGeoJson feature (writeOSM feature st)"

text \<open>Lines 588 and 589: \<open>csvin.finishOSM()\<close>, then \<open>csvin.finishGeoJson()\<close>.\<close>

definition finish_both :: "csv_out \<Rightarrow> csv_out" where
  "finish_both st = finishGeoJson (finishOSM st)"

text \<open>
  Lines 570 to 586, the body of \<open>for entry in csvdata\<close>. \<open>n\<close> is \<open>len(data)\<close>, the
  length of the whole payload, which line 571 tests. \<open>feature["attrs"]\<close> raises
  \<open>KeyError\<close> when the feature has no \<open>attrs\<close>. The result is the exception that
  ended the body, if any, and the streams as they then are.
\<close>

definition process_entry :: "csvdump \<Rightarrow> nat \<Rightarrow> entry \<Rightarrow> csv_out \<Rightarrow> exn option \<times> csv_out" where
  "process_entry cv n entry st =
     (if n \<le> 1 then (None, st)
      else case createEntry cv entry of
             Inl e \<Rightarrow> (Some e, st)
           | Inr feature \<Rightarrow>
               if length feature > 0 then
                 (if map_of feature ''tags'' = None then (None, st\<lparr>warnings := warnings st @ [feature]\<rparr>)
                  else (case map_of feature ''attrs'' of
                          None \<Rightarrow> (Some (Error ''KeyError'' ''attrs''), st)
                        | Some attrs \<Rightarrow>
                            if map_of attrs ''lat'' = None then
                              (case epdb_st cv of
                                 Some e \<Rightarrow> (Some e, st)
                               | None \<Rightarrow> (None, write_both feature st))
                            else (None, write_both feature st)))
               else (None, st))"

fun process_entries :: "csvdump \<Rightarrow> nat \<Rightarrow> entry list \<Rightarrow> csv_out \<Rightarrow> exn option \<times> csv_out" where
  "process_entries cv n [] st = (None, st)"
| "process_entries cv n (entry # rest) st =
     (case process_entry cv n entry st of
        (Some e, st') \<Rightarrow> (Some e, st')
      | (None, st') \<Rightarrow> process_entries cv n rest st')"

text \<open>\<open>createOSM(f"{filespec}.osm")\<close> and \<open>createGeoJson(f"{filespec}.geojson")\<close>.\<close>

definition created :: "string \<Rightarrow> csv_out" where
  "created filespec =
     \<lparr>osm_file = filespec @ ''.osm'', osm = [], osm_finished = False,
      geojson_file = filespec @ ''.geojson'', geojson = [], geojson_finished = False,
      warnings = []\<rparr>"

text \<open>
  \<open>convert_csv\<close>. With an empty \<open>data\<close> the rows are parsed from the file and the
  result of the parse is only assigned to \<open>data\<close>; with a non-empty \<open>data\<close> the
  rows parsed from it are looped over. Both branches end in the two \<open>finish\<close>
  calls and \<open>return True\<close>.
\<close>

definition convert_csv :: "csvdump \<Rightarrow> string \<Rightarrow> string \<Rightarrow> (exn + bool) \<times> csv_out" where
  "convert_csv cv filespec data =
     (if length data = 0 then
        (case parse_file cv filespec of
           Inl e \<Rightarrow> (Inl e, created filespec)
         | Inr parsed \<Rightarrow> (Inr True, finish_both (created filespec)))
      else
        (case parse_data cv filespec data of
           Inl e \<Rightarrow> (Inl e, created filespec)
         | Inr csvdata \<Rightarrow>
             (case process_entries cv (length data) csvdata (created filespec) of
                (Some e, st) \<Rightarrow> (Inl e, st)
              | (None, st) \<Rightarrow> (Inr True, finish_both st))))"

text \<open>
  What the properties below speak of. \<open>has_tags\<close> is the test of lines 575 and
  576, by which the loop keeps a feature: it is not empty and has the key
  \<open>tags\<close>, whatever the tag set holds. \<open>populated_tags\<close>: the feature has a tag
  set with at least one tag. \<open>feature_of\<close>: the feature of a row.
  \<open>has_geometry\<close>: the attributes hold a \<open>lat\<close>.
\<close>

definition has_tags :: "feature \<Rightarrow> bool" where
  "has_tags feature = (length feature > 0 \<and> map_of feature ''tags'' \<noteq> None)"

definition populated_tags :: "feature \<Rightarrow> bool" where
  "populated_tags feature = (case map_of feature ''tags'' of None \<Rightarrow> False | Some tags \<Rightarrow> tags \<noteq> [])"

definition feature_of :: "csvdump \<Rightarrow> entry \<Rightarrow> feature" where
  "feature_of cv entry = (case createEntry cv entry of Inr feature \<Rightarrow> feature | Inl e \<Rightarrow> [])"

definition has_geometry :: "feature \<Rightarrow> bool" where
  "has_geometry feature = (case map_of feature ''attrs'' of None \<Rightarrow> False | Some attrs \<Rightarrow> map_of attrs ''lat'' \<noteq> None)"

text \<open>Concrete collaborators for evaluating the functions.\<close>

definition demo_creds :: creds where
  "demo_creds = \<lparr>odk_central_url = ''https://odk.example.org'', odk_central_user = ''admin'',
     odk_central_password = ''secret''\<rparr>"

definition ok_remote :: remote where
  "ok_remote = \<lparr>settings = demo_creds,
     OdkProject = (\<lambda>c. None), OdkForm = (\<lambda>c. None),
     createProject = (\<lambda>c n. Inr (PyDict [(''id'', PyInt 7), (''name'', PyStr n)])),
     deleteProject = (\<lambda>c i. Inr (PyDict [(''success'', PyStr ''true'')])),
     createForm = (\<lambda>c i s p d. Inr 200),
     uploadMedia = (\<lambda>c i s p d. None),
     publishForm = (\<lambda>c i s. Inr 200)\<rparr>"

definition auth_failed_remote :: remote where
  "auth_failed_remote = ok_remote\<lparr>createProject :=
     (\<lambda>c n. Inr (PyDict [(''code'', PyFloat (2006 / 5)), (''message'', PyStr ''Could not authenticate'')]))\<rparr>"

definition down_remote :: remote where
  "down_remote = ok_remote\<lparr>deleteProject := (\<lambda>c i. Inl (Error ''ConnectionError'' ''connection refused''))\<rparr>"

definition ascii_codec :: codec where
  "ascii_codec = \<lparr>decode_utf8 = (\<lambda>b. Inr b)\<rparr>"

definition empty_world :: world where
  "empty_world = \<lparr>files = (\<lambda>p. None), trace = []\<rparr>"

definition upload_fails_remote :: remote where
  "upload_fails_remote = ok_remote\<lparr>uploadMedia := (\<lambda>c i s p d. Some (Error ''ConnectionError'' ''timed out''))\<rparr>"

definition exists_remote :: remote where
  "exists_remote = ok_remote\<lparr>createForm := (\<lambda>c i s p d. Inr 409)\<rparr>"

definition rejecting_remote :: remote where
  "rejecting_remote = ok_remote\<lparr>createForm := (\<lambda>c i s p d. Inr 400)\<rparr>"

text \<open>
  The form of the specification's example: a primary instance holding the
  \<open>data\<close> element, an instance bound to a geojson file, one bound to a csv file.
\<close>

definition leaf :: "string \<Rightarrow> (string \<times> string) list \<Rightarrow> element" where
  "leaf t a = Element t a None None []"

definition node :: "string \<Rightarrow> (string \<times> string) list \<Rightarrow> element list \<Rightarrow> element" where
  "node t a cs = Element t a None None cs"

definition survey_model :: element where
  "survey_model =
     node (clark ''xforms'' ''model'') []
       [node (clark ''xforms'' ''instance'') []
          [node (clark ''xforms'' ''data'') [(''id'', ''survey''), (''version'', ''1'')]
             [leaf (clark ''xforms'' ''existing'') []]],
        leaf (clark ''xforms'' ''instance'') [(''id'', ''features''), (''src'', ''jr://file/features.geojson'')],
        leaf (clark ''xforms'' ''instance'') [(''id'', ''towns''), (''src'', ''jr://file-csv/towns.csv'')],
        leaf (clark ''xforms'' ''bind'') [(''nodeset'', ''/data/existing'')]]"

definition survey_form :: element where
  "survey_form =
     node (clark ''h'' ''html'') []
       [node (clark ''h'' ''head'') [] [Element (clark ''h'' ''title'') [] (Some ''survey'') None [], survey_model],
        node (clark ''h'' ''body'') [] [leaf (clark ''xforms'' ''input'') [(''ref'', ''/data/existing'')]]]"

text \<open>
  A parser and a conversion for evaluating \<open>test_form_validity\<close>: the form
  \<open>broken\<close> does not convert, any other converts to \<open>survey_form\<close>.
\<close>

definition demo_lib :: xmllib where
  "demo_lib = \<lparr>xls2xform_convert = (\<lambda>fs p. if fs p = Some ''broken'' then Inl (Error ''PyXFormError'' ''no survey sheet'')
                                             else Inr ''<h:html/>''),
               fromstring = (\<lambda>s. Inr survey_form),
               tostring = (\<lambda>e. ''<h:html/>'')\<rparr>"

text \<open>
  Submissions: a row converts to a feature with tags and coordinates when it has
  a \<open>lat\<close> column and a \<open>building\<close> column, to one without \<open>lat\<close> when the \<open>lat\<close>
  column is missing, to one without tags when the \<open>building\<close> column is missing.
\<close>

definition demo_createEntry :: "entry \<Rightarrow> exn + feature" where
  "demo_createEntry entry =
     Inr ((''attrs'', filter (\<lambda>kv. fst kv = ''lat'' \<or> fst kv = ''lon'' \<or> fst kv = ''id'') entry)
          # (if map_of entry ''building'' = None then []
             else [(''tags'', filter (\<lambda>kv. fst kv = ''building'') entry)]))"

definition good_row :: entry where
  "good_row = [(''id'', ''1''), (''lat'', ''27.7''), (''lon'', ''85.3''), (''building'', ''yes'')]"

definition no_lat_row :: entry where
  "no_lat_row = [(''id'', ''2''), (''building'', ''yes'')]"

definition no_tags_row :: entry where
  "no_tags_row = [(''id'', ''3''), (''lat'', ''27.8''), (''lon'', ''85.4'')]"

definition demo_csv :: csvdump where
  "demo_csv = \<lparr>parse_file = (\<lambda>f. Inr [good_row]),
               parse_data = (\<lambda>f d. Inr [no_tags_row, good_row]),
               createEntry = demo_createEntry,
               epdb_st = None\<rparr>"

definition no_lat_csv :: csvdump where
  "no_lat_csv = demo_csv\<lparr>parse_data := (\<lambda>f d. Inr [no_lat_row, good_row])\<rparr>"

definition no_epdb_csv :: csvdump where
  "no_epdb_csv = no_lat_csv\<lparr>epdb_st := Some (Error ''ModuleNotFoundError'' ''No module named epdb'')\<rparr>"

text \<open>
  For evaluating \<open>generate_updated_xform\<close>: the form of the example after the
  rewriting for the form identifier \<open>form-42\<close> and the category \<open>buildings\<close>; a
  conversion that turns any sheet into the text \<open><survey/>\<close>, a parser that reads
  that text as \<open>survey_form\<close> and \<open><rewritten/>\<close> as the rewritten form, and a
  serialiser that writes the rewritten form as \<open><rewritten/>\<close>; a world that holds
  the spreadsheet.
\<close>

definition survey_form_rewritten :: element where
  "survey_form_rewritten =
     node (clark ''h'' ''html'') []
       [node (clark ''h'' ''head'') []
          [Element (clark ''h'' ''title'') [] (Some ''survey'') None [],
           node (clark ''xforms'' ''model'') []
             [node (clark ''xforms'' ''instance'') []
                [node (clark ''xforms'' ''data'') [(''id'', ''form-42''), (''version'', ''1'')]
                   [leaf (clark ''xforms'' ''existing'') []]],
              leaf (clark ''xforms'' ''instance'') [(''id'', ''features''), (''src'', ''jr://file/buildings.geojson'')],
              leaf (clark ''xforms'' ''instance'') [(''id'', ''towns''), (''src'', ''jr://file-csv/towns.csv'')],
              leaf (clark ''xforms'' ''bind'') [(''nodeset'', ''/data/existing'')]]],
        node (clark ''h'' ''body'') [] [leaf (clark ''xforms'' ''input'') [(''ref'', ''/data/existing'')]]]"

definition form_lib :: xmllib where
  "form_lib =
     \<lparr>xls2xform_convert = (\<lambda>fs p. case fs p of None \<Rightarrow> Inl (Error ''FileNotFoundError'' p)
                                      | Some sheet \<Rightarrow> Inr ''<survey/>''),
      fromstring = (\<lambda>s. if s = ''<rewritten/>'' then Inr survey_form_rewritten else Inr survey_form),
      tostring = (\<lambda>e. if e = survey_form_rewritten then ''<rewritten/>'' else ''<other/>'')\<rparr>"

definition survey_world :: world where
  "survey_world = \<lparr>files = (\<lambda>p. if p = ''/tmp/survey.xlsx'' then Some ''sheet'' else None), trace = []\<rparr>"

section \<open>Properties\<close>

lemma str_nat_500: "str_nat 500 = ''500''"
  by code_simp

lemma str_int_500: "str_int 500 = ''500''"
  by (simp add: str_int_def str_nat_500)

lemma ok_remote_sel [simp]:
  "settings ok_remote = demo_creds" "OdkProject ok_remote c = None" "OdkForm ok_remote c = None"
  by (simp_all add: ok_remote_def)

subsection \<open>Projects\<close>

lemma prefixed_neq: "''FMTM '' @ name \<noteq> name"
proof
  assume "''FMTM '' @ name = name"
  then have "length (''FMTM '' @ name) = length name" by simp
  then show False by simp
qed

lemma create_odk_project_connected:
  assumes "OdkProject env (resolve_creds env oc) = None"
  shows "create_odk_project env name oc =
           (case createProject env (resolve_creds env oc) (''FMTM '' @ name) of
              Inl e \<Rightarrow> Inl (HTTPException 500 (Text (''Error creating project on ODK Central: '' @ exn_str e)))
            | Inr result \<Rightarrow>
                if is_dict result \<and> eq_401_2 (dict_get result ''code'')
                then Inl (HTTPException 500 (Text (''Error creating project on ODK Central: ''
                       @ exn_str (HTTPException 500 (Text ''Could not authenticate to odk central.'')))))
                else Inr result,
            [CreateProject (resolve_creds env oc) (''FMTM '' @ name)])"
  using assms
  by (simp add: create_odk_project_def get_odk_project_def create_odk_project_try_def
        call_createProject_def Let_def split: sum.splits)

lemma create_odk_project_not_connected:
  assumes "OdkProject env (resolve_creds env oc) = Some e"
  shows "create_odk_project env name oc =
           (Inl (HTTPException 500 (Text (''Error creating project on ODK Central: '' @ exn_str e))), [])"
  using assms by (simp add: create_odk_project_def get_odk_project_def Let_def)

text \<open>
  C9. For every name passed by the caller, the name \<open>create_odk_project\<close> passes
  to \<open>createProject\<close> is \<open>"FMTM "\<close> followed by that name. With the connection made,
  the result is what the server answers to the prefixed name (wrapped when it is
  an exception or the authentication failure) and the trace is that one call. No
  call carries the bare name, and every call carries the prefixed one. What the
  server would answer to any other name, the bare one included, has no
  influence: two servers that answer alike to the prefixed name give the same
  result and the same trace.
\<close>

theorem create_odk_project_sends_prefixed_name:
  "(OdkProject env (resolve_creds env oc) = None \<longrightarrow>
      create_odk_project env name oc =
        (case createProject env (resolve_creds env oc) (''FMTM '' @ name) of
           Inl e \<Rightarrow> Inl (HTTPException 500 (Text (''Error creating project on ODK Central: '' @ exn_str e)))
         | Inr result \<Rightarrow>
             if is_dict result \<and> eq_401_2 (dict_get result ''code'')
             then Inl (HTTPException 500 (Text (''Error creating project on ODK Central: ''
                    @ exn_str (HTTPException 500 (Text ''Could not authenticate to odk central.'')))))
             else Inr result,
         [CreateProject (resolve_creds env oc) (''FMTM '' @ name)]))
   \<and> (\<forall>c n. CreateProject c n \<in> set (snd (create_odk_project env name oc)) \<longrightarrow> n = ''FMTM '' @ name \<and> n \<noteq> name)
   \<and> (\<forall>ev \<in> set (snd (create_odk_project env name oc)). \<exists>c. ev = CreateProject c (''FMTM '' @ name))
   \<and> (\<forall>env'. settings env' = settings env \<and> OdkProject env' = OdkProject env
          \<and> (\<forall>c. createProject env' c (''FMTM '' @ name) = createProject env c (''FMTM '' @ name)) \<longrightarrow>
          create_odk_project env' name oc = create_odk_project env name oc)"
proof -
  have A: "OdkProject env (resolve_creds env oc) = None \<longrightarrow>
      create_odk_project env name oc =
        (case createProject env (resolve_creds env oc) (''FMTM '' @ name) of
           Inl e \<Rightarrow> Inl (HTTPException 500 (Text (''Error creating project on ODK Central: '' @ exn_str e)))
         | Inr result \<Rightarrow>
             if is_dict result \<and> eq_401_2 (dict_get result ''code'')
             then Inl (HTTPException 500 (Text (''Error creating project on ODK Central: ''
                    @ exn_str (HTTPException 500 (Text ''Could not authenticate to odk central.'')))))
             else Inr result,
         [CreateProject (resolve_creds env oc) (''FMTM '' @ name)])"
    by (rule impI) (rule create_odk_project_connected)
  have tr: "snd (create_odk_project env name oc) = []
            \<or> snd (create_odk_project env name oc) = [CreateProject (resolve_creds env oc) (''FMTM '' @ name)]"
  proof (cases "OdkProject env (resolve_creds env oc)")
    case None
    then show ?thesis by (simp add: create_odk_project_connected)
  next
    case (Some e)
    then show ?thesis by (simp add: create_odk_project_not_connected)
  qed
  have B: "\<forall>c n. CreateProject c n \<in> set (snd (create_odk_project env name oc))
             \<longrightarrow> n = ''FMTM '' @ name \<and> n \<noteq> name"
  proof (intro allI impI)
    fix c n
    assume "CreateProject c n \<in> set (snd (create_odk_project env name oc))"
    with tr have "n = ''FMTM '' @ name" by auto
    with prefixed_neq [of name] show "n = ''FMTM '' @ name \<and> n \<noteq> name" by simp
  qed
  have C: "\<forall>ev \<in> set (snd (create_odk_project env name oc)). \<exists>c. ev = CreateProject c (''FMTM '' @ name)"
    using tr by auto
  have D: "\<forall>env'. settings env' = settings env \<and> OdkProject env' = OdkProject env
          \<and> (\<forall>c. createProject env' c (''FMTM '' @ name) = createProject env c (''FMTM '' @ name)) \<longrightarrow>
          create_odk_project env' name oc = create_odk_project env name oc"
  proof (intro allI impI)
    fix env' :: remote
    assume a: "settings env' = settings env \<and> OdkProject env' = OdkProject env
          \<and> (\<forall>c. createProject env' c (''FMTM '' @ name) = createProject env c (''FMTM '' @ name))"
    then have "settings env' = settings env" by (rule conjunct1)
    then have r: "resolve_creds env' oc = resolve_creds env oc"
      by (cases oc) (simp_all add: resolve_creds_def)
    show "create_odk_project env' name oc = create_odk_project env name oc"
    proof (cases "OdkProject env (resolve_creds env oc)")
      case None
      with a r have "OdkProject env' (resolve_creds env' oc) = None" by simp
      with None a r show ?thesis by (simp add: create_odk_project_connected)
    next
      case (Some e)
      with a r have "OdkProject env' (resolve_creds env' oc) = Some e" by simp
      with Some show ?thesis by (simp add: create_odk_project_not_connected)
    qed
  qed
  show ?thesis
    by (rule conjI [OF A conjI [OF B conjI [OF C D]]])
qed

theorem create_odk_project_sends_prefixed_name_witness:
  "OdkProject ok_remote (resolve_creds ok_remote None) = None
   \<and> create_odk_project ok_remote ''roads'' None
     = (Inr (PyDict [(''id'', PyInt 7), (''name'', PyStr ''FMTM roads'')]), [CreateProject demo_creds ''FMTM roads''])
   \<and> CreateProject demo_creds ''roads'' \<notin> set (snd (create_odk_project ok_remote ''roads'' None))
   \<and> create_odk_project (ok_remote\<lparr>createProject := (\<lambda>c n. if n = ''roads'' then Inl (Error ''Conflict'' ''exists'')
                                                        else createProject ok_remote c n)\<rparr>) ''roads'' None
     = create_odk_project ok_remote ''roads'' None"
proof -
  have ok: "OdkProject ok_remote (resolve_creds ok_remote None) = None" by simp
  note t = create_odk_project_sends_prefixed_name [of ok_remote None "''roads''"]
  from t ok have "create_odk_project ok_remote ''roads'' None =
        (case createProject ok_remote (resolve_creds ok_remote None) (''FMTM '' @ ''roads'') of
           Inl e \<Rightarrow> Inl (HTTPException 500 (Text (''Error creating project on ODK Central: '' @ exn_str e)))
         | Inr result \<Rightarrow>
             if is_dict result \<and> eq_401_2 (dict_get result ''code'')
             then Inl (HTTPException 500 (Text (''Error creating project on ODK Central: ''
                    @ exn_str (HTTPException 500 (Text ''Could not authenticate to odk central.'')))))
             else Inr result,
         [CreateProject (resolve_creds ok_remote None) (''FMTM '' @ ''roads'')])"
    by blast
  then have res: "create_odk_project ok_remote ''roads'' None
     = (Inr (PyDict [(''id'', PyInt 7), (''name'', PyStr ''FMTM roads'')]), [CreateProject demo_creds ''FMTM roads''])"
    by (simp add: resolve_creds_def ok_remote_def dict_get_def eq_401_2_def)
  let ?env' = "ok_remote\<lparr>createProject := (\<lambda>c n. if n = ''roads'' then Inl (Error ''Conflict'' ''exists'')
                                                        else createProject ok_remote c n)\<rparr>"
  have same: "settings ?env' = settings ok_remote \<and> OdkProject ?env' = OdkProject ok_remote
          \<and> (\<forall>c. createProject ?env' c (''FMTM '' @ ''roads'') = createProject ok_remote c (''FMTM '' @ ''roads''))"
    by simp
  from t same have eq: "create_odk_project ?env' ''roads'' None = create_odk_project ok_remote ''roads'' None"
    by blast
  from ok res eq show ?thesis by simp
qed

text \<open>
  C8. \<open>delete_odk_project\<close> never raises: it always returns a value; when the
  connection or the deletion raised, the value is the string
  \<open>'Could not delete project from central odk'\<close>; when both succeeded, it is the
  result of the server.
\<close>

theorem delete_odk_project_never_raises:
  "(\<exists>v. fst (delete_odk_project env project_id oc) = Inr v)
   \<and> (\<forall>e. OdkProject env (resolve_creds env oc) = Some e \<longrightarrow>
        delete_odk_project env project_id oc = (Inr (PyStr ''Could not delete project from central odk''), []))
   \<and> (\<forall>e. OdkProject env (resolve_creds env oc) = None
          \<and> deleteProject env (resolve_creds env oc) project_id = Inl e \<longrightarrow>
        fst (delete_odk_project env project_id oc) = Inr (PyStr ''Could not delete project from central odk''))
   \<and> (\<forall>r. OdkProject env (resolve_creds env oc) = None
          \<and> deleteProject env (resolve_creds env oc) project_id = Inr r \<longrightarrow>
        fst (delete_odk_project env project_id oc) = Inr r)"
  by (cases "OdkProject env (resolve_creds env oc)"; cases "deleteProject env (resolve_creds env oc) project_id")
     (simp_all add: delete_odk_project_def delete_odk_project_try_def get_odk_project_def Let_def)

theorem delete_odk_project_never_raises_witness:
  "fst (delete_odk_project down_remote 3 None) = Inr (PyStr ''Could not delete project from central odk'')
   \<and> fst (delete_odk_project ok_remote 3 None) = Inr (PyDict [(''success'', PyStr ''true'')])"
proof -
  have a: "OdkProject down_remote (resolve_creds down_remote None) = None
           \<and> deleteProject down_remote (resolve_creds down_remote None) 3
             = Inl (Error ''ConnectionError'' ''connection refused'')"
    by (simp add: down_remote_def ok_remote_def)
  have b: "OdkProject ok_remote (resolve_creds ok_remote None) = None
           \<and> deleteProject ok_remote (resolve_creds ok_remote None) 3
             = Inr (PyDict [(''success'', PyStr ''true'')])"
    by (simp add: ok_remote_def)
  from a delete_odk_project_never_raises [of down_remote 3 None]
  have 1: "fst (delete_odk_project down_remote 3 None) = Inr (PyStr ''Could not delete project from central odk'')"
    by blast
  from b delete_odk_project_never_raises [of ok_remote 3 None]
  have 2: "fst (delete_odk_project ok_remote 3 None) = Inr (PyDict [(''success'', PyStr ''true'')])"
    by blast
  from 1 2 show ?thesis by (rule conjI)
qed

text \<open>
  When the server answers with a dict whose \<open>code\<close> is 401.2, the \<open>HTTPException\<close>
  raised for it is raised inside the \<open>try\<close>, so the function's own
  \<open>except Exception\<close> catches and wraps it: the caller receives the generic detail
  \<open>"Error creating project on ODK Central: ..."\<close>.
\<close>

lemma create_odk_project_auth_failure_is_wrapped:
  assumes "OdkProject env (resolve_creds env oc) = None"
    and "createProject env (resolve_creds env oc) (''FMTM '' @ name) = Inr result"
    and "is_dict result" and "dict_get result ''code'' = PyFloat (2006 / 5)"
  shows "fst (create_odk_project env name oc)
         = Inl (HTTPException 500 (Text (''Error creating project on ODK Central: ''
                  @ ''500: Could not authenticate to odk central.'')))"
  using assms
  by (simp add: create_odk_project_connected eq_401_2_def exn_str_def detail_str_def str_int_500)

lemma auth_failed_remote_sel:
  "is_dict (PyDict [(''code'', PyFloat (2006 / 5)), (''message'', PyStr ''Could not authenticate'')])"
  "dict_get (PyDict [(''code'', PyFloat (2006 / 5)), (''message'', PyStr ''Could not authenticate'')]) ''code''
     = PyFloat (2006 / 5)"
  "createProject auth_failed_remote c n
     = Inr (PyDict [(''code'', PyFloat (2006 / 5)), (''message'', PyStr ''Could not authenticate'')])"
  "OdkProject auth_failed_remote c = None"
  by (simp_all add: is_dict_def dict_get_def auth_failed_remote_def)

text \<open>
  C5 (the code at the failing input). The server is reachable and answers
  \<open>{"code": 401.2, "message": ...}\<close>: the exception that reaches the caller has the
  generic detail, not \<open>'Could not authenticate to odk central.'\<close>.
\<close>

theorem create_odk_project_auth_failure_at_input:
  "fst (create_odk_project auth_failed_remote ''roads'' None)
     = Inl (HTTPException 500 (Text ''Error creating project on ODK Central: 500: Could not authenticate to odk central.''))
   \<and> fst (create_odk_project auth_failed_remote ''roads'' None)
     \<noteq> Inl (HTTPException 500 (Text ''Could not authenticate to odk central.''))"
proof -
  have "fst (create_odk_project auth_failed_remote ''roads'' None)
     = Inl (HTTPException 500 (Text (''Error creating project on ODK Central: ''
                  @ ''500: Could not authenticate to odk central.'')))"
    by (rule create_odk_project_auth_failure_is_wrapped [OF auth_failed_remote_sel(4)
          auth_failed_remote_sel(3) auth_failed_remote_sel(1) auth_failed_remote_sel(2)])
  then show ?thesis by simp
qed

subsection \<open>Publishing a form\<close>

lemma get_odk_form_Some: "OdkForm env cr = None \<Longrightarrow> get_odk_form env (Some cr) = Inr cr"
  by (simp add: get_odk_form_def resolve_creds_def)

lemma create_odk_xform_continue:
  assumes "OdkForm env cr = None"
    and "createForm env cr odk_id (path_stem xp) xp draft = Inr r" and "r = 200 \<or> r = 409"
  shows "create_odk_xform env cd odk_id xp cat gj cr draft conv w
         = stage_attach_publish env cd cr odk_id xp cat gj conv
             (emit (CreateForm cr odk_id (path_stem xp) xp draft) w)"
  using assms by (auto simp add: create_odk_xform_def get_odk_form_Some Let_def)

lemma stage_attach_publish_createForm_irrelevant:
  "stage_attach_publish (env\<lparr>createForm := f\<rparr>) cd cr odk_id xp cat gj conv w
   = stage_attach_publish env cd cr odk_id xp cat gj conv w"
  by (simp add: stage_attach_publish_def Let_def split: sum.splits option.splits)

lemma stage_attach_publish_ok:
  assumes "decode_utf8 cd gj = Inr txt"
    and "uploadMedia env cr odk_id (path_stem xp) (geojson_path_of odk_id cat) conv = None"
  shows "fst (stage_attach_publish env cd cr odk_id xp cat gj conv w) = publishForm env cr odk_id (path_stem xp)"
    and "trace (snd (stage_attach_publish env cd cr odk_id xp cat gj conv w))
         = trace w @ [Mkdir (path_parent (geojson_path_of odk_id cat)),
                      WriteFile (geojson_path_of odk_id cat) txt,
                      UploadMedia cr odk_id (path_stem xp) (geojson_path_of odk_id cat) conv,
                      Unlink (geojson_path_of odk_id cat),
                      PublishForm cr odk_id (path_stem xp)]"
    and "files (snd (stage_attach_publish env cd cr odk_id xp cat gj conv w)) = (files w)(geojson_path_of odk_id cat := None)"
  using assms by (simp_all add: stage_attach_publish_def Let_def emit_def)

lemma stage_attach_publish_upload_raises:
  assumes "decode_utf8 cd gj = Inr txt"
    and "uploadMedia env cr odk_id (path_stem xp) (geojson_path_of odk_id cat) conv = Some e"
  shows "fst (stage_attach_publish env cd cr odk_id xp cat gj conv w) = Inl e"
    and "trace (snd (stage_attach_publish env cd cr odk_id xp cat gj conv w))
         = trace w @ [Mkdir (path_parent (geojson_path_of odk_id cat)),
                      WriteFile (geojson_path_of odk_id cat) txt,
                      UploadMedia cr odk_id (path_stem xp) (geojson_path_of odk_id cat) conv]"
    and "files (snd (stage_attach_publish env cd cr odk_id xp cat gj conv w)) = (files w)(geojson_path_of odk_id cat \<mapsto> txt)"
  using assms by (simp_all add: stage_attach_publish_def Let_def emit_def)

text \<open>
  C2. With the connection made and \<open>createForm\<close> returning a code \<open>r\<close>: when \<open>r\<close> is
  neither 200 nor 409 the function returns \<open>r\<close> and the only thing done is the
  \<open>createForm\<close> call (no file is touched, nothing else is sent); when \<open>r\<close> is 200 or
  409 the run is the same whichever of the two it was, and, when decoding and the
  upload raise nothing, it stages the file, uploads it, unlinks it and publishes,
  returning the result of \<open>publishForm\<close>.
\<close>

theorem create_odk_xform_createForm_decides:
  assumes conn: "OdkForm env cr = None"
    and res: "createForm env cr odk_id (path_stem xp) xp draft = Inr r"
  shows "(r \<noteq> 200 \<and> r \<noteq> 409 \<longrightarrow>
            create_odk_xform env cd odk_id xp cat gj cr draft conv w
            = (Inr r, w\<lparr>trace := trace w @ [CreateForm cr odk_id (path_stem xp) xp draft]\<rparr>))
       \<and> (r = 200 \<or> r = 409 \<longrightarrow>
            create_odk_xform (env\<lparr>createForm := (\<lambda>c i s p d. Inr 200)\<rparr>) cd odk_id xp cat gj cr draft conv w
            = create_odk_xform env cd odk_id xp cat gj cr draft conv w
          \<and> create_odk_xform (env\<lparr>createForm := (\<lambda>c i s p d. Inr 409)\<rparr>) cd odk_id xp cat gj cr draft conv w
            = create_odk_xform env cd odk_id xp cat gj cr draft conv w
          \<and> (\<forall>txt. decode_utf8 cd gj = Inr txt
                 \<and> uploadMedia env cr odk_id (path_stem xp) (geojson_path_of odk_id cat) conv = None \<longrightarrow>
               fst (create_odk_xform env cd odk_id xp cat gj cr draft conv w) = publishForm env cr odk_id (path_stem xp)
             \<and> trace (snd (create_odk_xform env cd odk_id xp cat gj cr draft conv w))
               = trace w @ [CreateForm cr odk_id (path_stem xp) xp draft,
                            Mkdir (path_parent (geojson_path_of odk_id cat)),
                            WriteFile (geojson_path_of odk_id cat) txt,
                            UploadMedia cr odk_id (path_stem xp) (geojson_path_of odk_id cat) conv,
                            Unlink (geojson_path_of odk_id cat),
                            PublishForm cr odk_id (path_stem xp)]))"
proof (intro conjI impI)
  assume "r \<noteq> 200 \<and> r \<noteq> 409"
  with conn res show "create_odk_xform env cd odk_id xp cat gj cr draft conv w
            = (Inr r, w\<lparr>trace := trace w @ [CreateForm cr odk_id (path_stem xp) xp draft]\<rparr>)"
    by (simp add: create_odk_xform_def get_odk_form_Some Let_def emit_def)
next
  assume r: "r = 200 \<or> r = 409"
  note c = create_odk_xform_continue [OF conn res r]
  let ?e200 = "env\<lparr>createForm := (\<lambda>c i s p d. Inr 200)\<rparr>"
  let ?e409 = "env\<lparr>createForm := (\<lambda>c i s p d. Inr 409)\<rparr>"
  have c200: "create_odk_xform ?e200 cd odk_id xp cat gj cr draft conv w
         = stage_attach_publish ?e200 cd cr odk_id xp cat gj conv
             (emit (CreateForm cr odk_id (path_stem xp) xp draft) w)"
    by (rule create_odk_xform_continue [where r = 200]) (simp_all add: conn)
  have c409: "create_odk_xform ?e409 cd odk_id xp cat gj cr draft conv w
         = stage_attach_publish ?e409 cd cr odk_id xp cat gj conv
             (emit (CreateForm cr odk_id (path_stem xp) xp draft) w)"
    by (rule create_odk_xform_continue [where r = 409]) (simp_all add: conn)
  show "create_odk_xform ?e200 cd odk_id xp cat gj cr draft conv w
            = create_odk_xform env cd odk_id xp cat gj cr draft conv w"
    by (simp only: c c200 stage_attach_publish_createForm_irrelevant)
  show "create_odk_xform ?e409 cd odk_id xp cat gj cr draft conv w
            = create_odk_xform env cd odk_id xp cat gj cr draft conv w"
    by (simp only: c c409 stage_attach_publish_createForm_irrelevant)
  show "\<forall>txt. decode_utf8 cd gj = Inr txt
                 \<and> uploadMedia env cr odk_id (path_stem xp) (geojson_path_of odk_id cat) conv = None \<longrightarrow>
               fst (create_odk_xform env cd odk_id xp cat gj cr draft conv w) = publishForm env cr odk_id (path_stem xp)
             \<and> trace (snd (create_odk_xform env cd odk_id xp cat gj cr draft conv w))
               = trace w @ [CreateForm cr odk_id (path_stem xp) xp draft,
                            Mkdir (path_parent (geojson_path_of odk_id cat)),
                            WriteFile (geojson_path_of odk_id cat) txt,
                            UploadMedia cr odk_id (path_stem xp) (geojson_path_of odk_id cat) conv,
                            Unlink (geojson_path_of odk_id cat),
                            PublishForm cr odk_id (path_stem xp)]"
    by (simp add: c stage_attach_publish_ok emit_def)
qed

text \<open>
  C1 (as amended). In a run that reaches the staging step and decodes the
  geodata: when \<open>uploadMedia\<close> returns, the staged file does not exist after the
  call, whatever \<open>publishForm\<close> then does; when \<open>uploadMedia\<close> raises, the exception
  reaches the caller and the staged file is still there.
\<close>

theorem create_odk_xform_unlinks_when_upload_returns:
  assumes conn: "OdkForm env cr = None"
    and res: "createForm env cr odk_id (path_stem xp) xp draft = Inr r" and r: "r = 200 \<or> r = 409"
    and dec: "decode_utf8 cd gj = Inr txt"
  shows "(uploadMedia env cr odk_id (path_stem xp) (geojson_path_of odk_id cat) conv = None \<longrightarrow>
            files (snd (create_odk_xform env cd odk_id xp cat gj cr draft conv w)) (geojson_path_of odk_id cat) = None)
       \<and> (\<forall>e. uploadMedia env cr odk_id (path_stem xp) (geojson_path_of odk_id cat) conv = Some e \<longrightarrow>
            fst (create_odk_xform env cd odk_id xp cat gj cr draft conv w) = Inl e
          \<and> files (snd (create_odk_xform env cd odk_id xp cat gj cr draft conv w)) (geojson_path_of odk_id cat) = Some txt)"
  by (simp add: create_odk_xform_continue [OF conn res r] stage_attach_publish_ok [OF dec]
        stage_attach_publish_upload_raises [OF dec])

lemma geojson_path_7: "geojson_path_of 7 ''buildings'' = ''/tmp/fmtm/odk/7/buildings.geojson''"
  by code_simp

lemma stem_form_42: "path_stem ''/tmp/form-42.xml'' = ''form-42''"
  by code_simp

lemma remote_sel [simp]:
  "OdkForm ok_remote c = None"
  "createForm ok_remote c i s p d = Inr 200"
  "uploadMedia ok_remote c i s p d = None"
  "publishForm ok_remote c i s = Inr 200"
  "OdkForm upload_fails_remote c = None"
  "createForm upload_fails_remote c i s p d = Inr 200"
  "uploadMedia upload_fails_remote c i s p d = Some (Error ''ConnectionError'' ''timed out'')"
  "OdkForm exists_remote c = None"
  "createForm exists_remote c i s p d = Inr 409"
  "uploadMedia exists_remote c i s p d = None"
  "publishForm exists_remote c i s = Inr 200"
  "OdkForm rejecting_remote c = None"
  "createForm rejecting_remote c i s p d = Inr 400"
  "decode_utf8 ascii_codec b = Inr b"
  by (simp_all add: ok_remote_def upload_fails_remote_def exists_remote_def rejecting_remote_def ascii_codec_def)

text \<open>
  C1 (as stated) fails: the upload raises, the call ends with that exception, and
  the staged file \<open>/tmp/fmtm/odk/7/buildings.geojson\<close> still exists.
\<close>

theorem create_odk_xform_upload_raises_counterexample:
  "fst (create_odk_xform upload_fails_remote ascii_codec 7 ''/tmp/form-42.xml'' ''buildings'' ''{}''
          demo_creds False True empty_world) = Inl (Error ''ConnectionError'' ''timed out'')
   \<and> files (snd (create_odk_xform upload_fails_remote ascii_codec 7 ''/tmp/form-42.xml'' ''buildings'' ''{}''
          demo_creds False True empty_world)) ''/tmp/fmtm/odk/7/buildings.geojson'' = Some ''{}''"
proof -
  have c: "create_odk_xform upload_fails_remote ascii_codec 7 ''/tmp/form-42.xml'' ''buildings'' ''{}''
          demo_creds False True empty_world
         = stage_attach_publish upload_fails_remote ascii_codec demo_creds 7 ''/tmp/form-42.xml'' ''buildings'' ''{}'' True
             (emit (CreateForm demo_creds 7 (path_stem ''/tmp/form-42.xml'') ''/tmp/form-42.xml'' False) empty_world)"
    by (rule create_odk_xform_continue [where r = 200]) simp_all
  show ?thesis
    unfolding c
    using stage_attach_publish_upload_raises(1,3) [of ascii_codec "''{}''" "''{}''" upload_fails_remote demo_creds 7
        "''/tmp/form-42.xml''" "''buildings''" True "Error ''ConnectionError'' ''timed out''"]
    by (simp add: geojson_path_7)
qed

theorem create_odk_xform_unlinks_when_upload_returns_witness:
  "files (snd (create_odk_xform ok_remote ascii_codec 7 ''/tmp/form-42.xml'' ''buildings'' ''{}''
          demo_creds False True (empty_world\<lparr>files := (\<lambda>p. Some ''old'')\<rparr>))) ''/tmp/fmtm/odk/7/buildings.geojson'' = None"
proof -
  have "files (snd (create_odk_xform ok_remote ascii_codec 7 ''/tmp/form-42.xml'' ''buildings'' ''{}''
          demo_creds False True (empty_world\<lparr>files := (\<lambda>p. Some ''old'')\<rparr>))) (geojson_path_of 7 ''buildings'') = None"
    using create_odk_xform_unlinks_when_upload_returns [of ok_remote demo_creds 7 "''/tmp/form-42.xml''" False
        200 ascii_codec "''{}''" "''{}''" "''buildings''" True]
    by simp
  then show ?thesis by (simp add: geojson_path_7)
qed

theorem create_odk_xform_createForm_decides_witness:
  "create_odk_xform rejecting_remote ascii_codec 7 ''/tmp/form-42.xml'' ''buildings'' ''{}''
          demo_creds False True empty_world
     = (Inr 400, empty_world\<lparr>trace := [CreateForm demo_creds 7 ''form-42'' ''/tmp/form-42.xml'' False]\<rparr>)
   \<and> trace (snd (create_odk_xform exists_remote ascii_codec 7 ''/tmp/form-42.xml'' ''buildings'' ''{}''
          demo_creds False True empty_world))
     = [CreateForm demo_creds 7 ''form-42'' ''/tmp/form-42.xml'' False,
        Mkdir ''/tmp/fmtm/odk/7'',
        WriteFile ''/tmp/fmtm/odk/7/buildings.geojson'' ''{}'',
        UploadMedia demo_creds 7 ''form-42'' ''/tmp/fmtm/odk/7/buildings.geojson'' True,
        Unlink ''/tmp/fmtm/odk/7/buildings.geojson'',
        PublishForm demo_creds 7 ''form-42'']"
proof -
  have pp: "path_parent ''/tmp/fmtm/odk/7/buildings.geojson'' = ''/tmp/fmtm/odk/7''"
    by code_simp
  have t: "trace empty_world = []" by (simp add: empty_world_def)
  have 1: "create_odk_xform rejecting_remote ascii_codec 7 ''/tmp/form-42.xml'' ''buildings'' ''{}''
          demo_creds False True empty_world
     = (Inr 400, empty_world\<lparr>trace := [CreateForm demo_creds 7 ''form-42'' ''/tmp/form-42.xml'' False]\<rparr>)"
    using create_odk_xform_createForm_decides [of rejecting_remote demo_creds 7 "''/tmp/form-42.xml''" False 400
        ascii_codec "''buildings''" "''{}''" True empty_world]
    by (simp add: stem_form_42 t)
  have 2: "trace (snd (create_odk_xform exists_remote ascii_codec 7 ''/tmp/form-42.xml'' ''buildings'' ''{}''
          demo_creds False True empty_world))
     = [CreateForm demo_creds 7 ''form-42'' ''/tmp/form-42.xml'' False,
        Mkdir ''/tmp/fmtm/odk/7'',
        WriteFile ''/tmp/fmtm/odk/7/buildings.geojson'' ''{}'',
        UploadMedia demo_creds 7 ''form-42'' ''/tmp/fmtm/odk/7/buildings.geojson'' True,
        Unlink ''/tmp/fmtm/odk/7/buildings.geojson'',
        PublishForm demo_creds 7 ''form-42'']"
    using create_odk_xform_createForm_decides [of exists_remote demo_creds 7 "''/tmp/form-42.xml''" False 409
        ascii_codec "''buildings''" "''{}''" True empty_world]
    by (simp add: stem_form_42 t geojson_path_7 pp)
  from 1 2 show ?thesis by (rule conjI)
qed

section \<open>Properties of the rewriting of XForm documents\<close>

subsection \<open>Lists: the element \<open>find\<close> returns\<close>

lemma find_map_first:
  assumes "\<And>x. P x \<Longrightarrow> P (f x)"
  shows "List.find P (map_first P f xs) = map_option f (List.find P xs)"
  by (induction xs) (simp_all add: assms)

lemma filter_map_first:
  assumes "\<And>x. P x \<Longrightarrow> P (f x)"
  shows "filter P (map_first P f xs) = map_first P f (filter P xs)"
  by (induction xs) (simp_all add: assms)

lemma map_first_idem:
  assumes "\<And>x. P x \<Longrightarrow> P (f x)" and "\<And>x. P x \<Longrightarrow> f (f x) = f x"
  shows "map_first P f (map_first P f xs) = map_first P f xs"
  by (induction xs) (simp_all add: assms)

lemma map_first_Nil_iff [simp]: "map_first P f xs = [] \<longleftrightarrow> xs = []"
  by (cases xs) simp_all

lemma length_map_first [simp]: "length (map_first P f xs) = length xs"
  by (induction xs) simp_all

lemma filter_map_if:
  assumes "\<And>x. P x \<Longrightarrow> P (g x)"
  shows "filter P (map (\<lambda>c. if P c then g c else c) xs) = map g (filter P xs)"
  by (induction xs) (simp_all add: assms)

lemma find_of_filter: "List.find P xs = (case filter P xs of [] \<Rightarrow> None | x # _ \<Rightarrow> Some x)"
  by (induction xs) simp_all

subsection \<open>What the rewriting keeps\<close>

lemma tag_set_attrib [simp]: "tag (set_attrib k v e) = tag e"
  and children_set_attrib [simp]: "children (set_attrib k v e) = children e"
  and attrib_set_attrib [simp]: "attrib (set_attrib k v e) = AList.update k v (attrib e)"
  and elem_text_set_attrib [simp]: "elem_text (set_attrib k v e) = elem_text e"
  and elem_tail_set_attrib [simp]: "elem_tail (set_attrib k v e) = elem_tail e"
  by (simp_all add: set_attrib_def)

lemma with_children_sel [simp]:
  "tag (with_children cs e) = tag e" "children (with_children cs e) = cs"
  "attrib (with_children cs e) = attrib e" "elem_text (with_children cs e) = elem_text e"
  "elem_tail (with_children cs e) = elem_tail e"
  by (simp_all add: with_children_def)

lemma attr_with_children [simp]: "attr k (with_children cs e) = attr k e"
  by (simp add: attr_def)

lemma attr_set_attrib: "attr k' (set_attrib k v e) = (if k' = k then Some v else attr k' e)"
  by (simp add: attr_def update_conv')

lemma set_attrib_twice [simp]: "set_attrib k v (set_attrib k v e) = set_attrib k v e"
  by (simp add: set_attrib_def)

lemma with_children_twice [simp]: "with_children cs (with_children ds e) = with_children cs e"
  by (simp add: with_children_def)

lemma tag_rewrite_data [simp]: "tag (rewrite_data form_id d) = tag d"
  by (simp add: rewrite_data_def)

lemma tag_rewrite_src [simp]: "tag (rewrite_src cat i) = tag i"
  and children_rewrite_src [simp]: "children (rewrite_src cat i) = children i"
  by (simp_all add: rewrite_src_def Let_def)

lemma tag_rewrite_instance [simp]: "tag (rewrite_instance form_id cat i) = tag i"
  by (simp add: rewrite_instance_def Let_def)

lemma tag_update_model [simp]: "tag (update_model form_id cat m) = tag m"
  and truthy_update_model [simp]: "truthy (update_model form_id cat m) = truthy m"
  by (simp_all add: update_model_def truthy_def)

lemma tag_update_head [simp]: "tag (update_head form_id cat h) = tag h"
  and truthy_update_head [simp]: "truthy (update_head form_id cat h) = truthy h"
  by (simp_all add: update_head_def truthy_def)

subsection \<open>The attributes after the rewriting\<close>

lemma attr_id_rewrite_data:
  "attr ''id'' (rewrite_data form_id d) = (if attr ''id'' d \<noteq> None then Some form_id else None)"
  by (simp add: rewrite_data_def attr_set_attrib)

lemma endswith_geojson: "endswith (''jr://file/'' @ cat @ ''.geojson'') ''.geojson''"
  by (simp add: endswith_def)

lemma attr_src_rewrite_src:
  "attr ''src'' (rewrite_src cat i) =
     (case attr ''src'' i of None \<Rightarrow> None
      | Some v \<Rightarrow> if endswith v ''.geojson'' then Some (''jr://file/'' @ cat @ ''.geojson'') else Some v)"
  by (auto simp add: rewrite_src_def Let_def attr_set_attrib split: option.splits)

lemma attr_src_rewrite_instance:
  "attr ''src'' (rewrite_instance form_id cat i) =
     (case attr ''src'' i of None \<Rightarrow> None
      | Some v \<Rightarrow> if endswith v ''.geojson'' then Some (''jr://file/'' @ cat @ ''.geojson'') else Some v)"
  by (simp add: rewrite_instance_def Let_def attr_src_rewrite_src)

lemma findall_data_rewrite_instance:
  "findall (clark ''xforms'' ''data'') (rewrite_instance form_id cat i)
   = map (rewrite_data form_id) (findall (clark ''xforms'' ''data'') i)"
  by (simp add: rewrite_instance_def Let_def findall_def filter_map_if)

subsection \<open>The instances of the rewritten document\<close>

lemma find_child_update_instances:
  "find_child (clark ''h'' ''head'') (update_instances form_id cat doc)
   = map_option (update_head form_id cat) (find_child (clark ''h'' ''head'') doc)"
  by (simp add: find_child_def update_instances_def find_map_first)

lemma find_child_update_head:
  "truthy h \<Longrightarrow> find_child (clark ''xforms'' ''model'') (update_head form_id cat h)
   = map_option (update_model form_id cat) (find_child (clark ''xforms'' ''model'') h)"
  by (simp add: find_child_def update_head_def find_map_first)

lemma findall_update_model:
  "truthy m \<Longrightarrow> findall (clark ''xforms'' ''instance'') (update_model form_id cat m)
   = map (rewrite_instance form_id cat) (findall (clark ''xforms'' ''instance'') m)"
  by (simp add: findall_def update_model_def filter_map_if)

lemma instances_update_instances:
  "instances (update_instances form_id cat doc) = map (rewrite_instance form_id cat) (instances doc)"
proof (cases "find_child (clark ''h'' ''head'') doc")
  case None
  then show ?thesis by (simp add: instances_def find_child_update_instances)
next
  case (Some h)
  note h = this
  show ?thesis
  proof (cases "truthy h")
    case False
    with h show ?thesis by (simp add: instances_def find_child_update_instances)
  next
    case True
    note th = this
    show ?thesis
    proof (cases "find_child (clark ''xforms'' ''model'') h")
      case None
      with h th show ?thesis
        by (simp add: instances_def find_child_update_instances find_child_update_head)
    next
      case (Some m)
      with h th show ?thesis
        by (cases "truthy m")
           (simp_all add: instances_def find_child_update_instances find_child_update_head
              findall_update_model)
    qed
  qed
qed

subsection \<open>Documents with one head and one model\<close>

lemma path_instances_single:
  assumes "single_head_model doc"
  shows "path_instances doc = instances doc"
proof (cases "findall (clark ''h'' ''head'') doc")
  case Nil
  then show ?thesis
    by (simp add: path_instances_def instances_def find_child_def find_of_filter findall_def)
next
  case (Cons h hs)
  with assms have hs: "hs = []" and one: "length (findall (clark ''xforms'' ''model'') h) \<le> 1"
    by (simp_all add: single_head_model_def)
  from Cons have fh: "find_child (clark ''h'' ''head'') doc = Some h"
    by (simp add: find_child_def find_of_filter findall_def)
  show ?thesis
  proof (cases "findall (clark ''xforms'' ''model'') h")
    case Nil
    with Cons hs fh show ?thesis
      by (simp add: path_instances_def instances_def find_child_def find_of_filter findall_def)
  next
    case (Cons m ms)
    with one have ms: "ms = []" by simp
    from Cons have fm: "find_child (clark ''xforms'' ''model'') h = Some m"
      by (simp add: find_child_def find_of_filter findall_def)
    from Cons have th: "truthy h"
      by (auto simp add: truthy_def findall_def)
    have "\<not> truthy m \<Longrightarrow> findall (clark ''xforms'' ''instance'') m = []"
      by (simp add: truthy_def findall_def)
    with \<open>findall (clark ''h'' ''head'') doc = h # hs\<close> hs Cons ms fh fm th show ?thesis
      by (simp add: path_instances_def instances_def)
  qed
qed

lemma findall_head_update_instances:
  "findall (clark ''h'' ''head'') (update_instances form_id cat doc)
   = map_first (\<lambda>c. tag c = clark ''h'' ''head'') (update_head form_id cat) (findall (clark ''h'' ''head'') doc)"
  by (simp add: findall_def update_instances_def filter_map_first)

lemma length_findall_model_update_head:
  "length (findall (clark ''xforms'' ''model'') (update_head form_id cat h))
   = length (findall (clark ''xforms'' ''model'') h)"
  by (simp add: findall_def update_head_def filter_map_first)

lemma single_head_model_update_instances:
  assumes "single_head_model doc"
  shows "single_head_model (update_instances form_id cat doc)"
proof (cases "findall (clark ''h'' ''head'') doc")
  case Nil
  then show ?thesis
    by (simp add: single_head_model_def findall_head_update_instances)
next
  case (Cons h hs)
  with assms have hs: "hs = []" and one: "length (findall (clark ''xforms'' ''model'') h) \<le> 1"
    by (simp_all add: single_head_model_def)
  from Cons have "h \<in> set (findall (clark ''h'' ''head'') doc)"
    by simp
  then have "tag h = clark ''h'' ''head''"
    by (simp add: findall_def)
  with Cons hs one show ?thesis
    by (simp add: single_head_model_def findall_head_update_instances length_findall_model_update_head)
qed

lemma rewrite_data_spec:
  "tag (rewrite_data form_id d) = tag d
   \<and> (attr ''id'' d \<noteq> None \<longrightarrow> attr ''id'' (rewrite_data form_id d) = Some form_id)
   \<and> (attr ''id'' d = None \<longrightarrow> rewrite_data form_id d = d)"
  by (simp add: rewrite_data_def attr_set_attrib)

text \<open>
  For every document, the elements the rewriting visits (\<open>instances\<close>) are
  matched one to one, in order, by the instances of the rewritten document: the
  tag is kept; a \<open>src\<close> ending in \<open>.geojson\<close> has become
  \<open>jr://file/<category>.geojson\<close> and any other \<open>src\<close> is as it was; every \<open>data\<close>
  child that carried an \<open>id\<close> now has the form identifier as its \<open>id\<close>, and a
  \<open>data\<close> child without \<open>id\<close> is unchanged. In a document with one head and one
  model these are all the instance elements under \<open>head/model\<close>, before and after.
\<close>

lemma update_instances_rewrites:
  "list_all2 (\<lambda>a b.
       tag b = tag a
     \<and> attr ''src'' b =
         (case attr ''src'' a of None \<Rightarrow> None
          | Some v \<Rightarrow> if endswith v ''.geojson'' then Some (''jr://file/'' @ cat @ ''.geojson'') else Some v)
     \<and> list_all2 (\<lambda>d d'. tag d' = tag d
                    \<and> (attr ''id'' d \<noteq> None \<longrightarrow> attr ''id'' d' = Some form_id)
                    \<and> (attr ''id'' d = None \<longrightarrow> d' = d))
         (findall (clark ''xforms'' ''data'') a) (findall (clark ''xforms'' ''data'') b))
     (instances doc) (instances (update_instances form_id cat doc))
   \<and> (single_head_model doc \<longrightarrow>
        path_instances doc = instances doc
      \<and> path_instances (update_instances form_id cat doc) = instances (update_instances form_id cat doc))"
proof (intro conjI impI)
  have data: "list_all2 (\<lambda>d d'. tag d' = tag d
                    \<and> (attr ''id'' d \<noteq> None \<longrightarrow> attr ''id'' d' = Some form_id)
                    \<and> (attr ''id'' d = None \<longrightarrow> d' = d)) ds (map (rewrite_data form_id) ds)" for ds
    by (rule list_all2_all_nthI) (simp_all add: rewrite_data_spec)
  show "list_all2 (\<lambda>a b.
       tag b = tag a
     \<and> attr ''src'' b =
         (case attr ''src'' a of None \<Rightarrow> None
          | Some v \<Rightarrow> if endswith v ''.geojson'' then Some (''jr://file/'' @ cat @ ''.geojson'') else Some v)
     \<and> list_all2 (\<lambda>d d'. tag d' = tag d
                    \<and> (attr ''id'' d \<noteq> None \<longrightarrow> attr ''id'' d' = Some form_id)
                    \<and> (attr ''id'' d = None \<longrightarrow> d' = d))
         (findall (clark ''xforms'' ''data'') a) (findall (clark ''xforms'' ''data'') b))
     (instances doc) (instances (update_instances form_id cat doc))"
    unfolding instances_update_instances
  proof (rule list_all2_all_nthI)
    show "length (instances doc) = length (map (rewrite_instance form_id cat) (instances doc))"
      by simp
  next
    fix n
    assume "n < length (instances doc)"
    then have nth: "map (rewrite_instance form_id cat) (instances doc) ! n
                    = rewrite_instance form_id cat (instances doc ! n)"
      by simp
    show "tag (map (rewrite_instance form_id cat) (instances doc) ! n) = tag (instances doc ! n)
     \<and> attr ''src'' (map (rewrite_instance form_id cat) (instances doc) ! n) =
         (case attr ''src'' (instances doc ! n) of None \<Rightarrow> None
          | Some v \<Rightarrow> if endswith v ''.geojson'' then Some (''jr://file/'' @ cat @ ''.geojson'') else Some v)
     \<and> list_all2 (\<lambda>d d'. tag d' = tag d
                    \<and> (attr ''id'' d \<noteq> None \<longrightarrow> attr ''id'' d' = Some form_id)
                    \<and> (attr ''id'' d = None \<longrightarrow> d' = d))
         (findall (clark ''xforms'' ''data'') (instances doc ! n))
         (findall (clark ''xforms'' ''data'') (map (rewrite_instance form_id cat) (instances doc) ! n))"
      unfolding nth findall_data_rewrite_instance
      by (intro conjI data tag_rewrite_instance attr_src_rewrite_instance)
  qed
next
  assume s: "single_head_model doc"
  then show "path_instances doc = instances doc" by (rule path_instances_single)
  from s show "path_instances (update_instances form_id cat doc) = instances (update_instances form_id cat doc)"
    by (intro path_instances_single single_head_model_update_instances)
qed

subsection \<open>Rewriting twice\<close>

lemma rewrite_data_idem: "rewrite_data form_id (rewrite_data form_id d) = rewrite_data form_id d"
  by (simp add: rewrite_data_def attr_set_attrib)

lemma rewrite_src_idem: "rewrite_src cat (rewrite_src cat i) = rewrite_src cat i"
  by (simp add: rewrite_src_def Let_def attr_set_attrib endswith_geojson)

lemma rewrite_src_with_children:
  "rewrite_src cat (with_children cs i) = with_children cs (rewrite_src cat i)"
  by (simp add: rewrite_src_def Let_def set_attrib_def with_children_def attr_def)

lemma map_if_idem:
  assumes "\<And>x. P x \<Longrightarrow> P (g x)" and "\<And>x. g (g x) = g x"
  shows "map (\<lambda>c. if P c then g c else c) (map (\<lambda>c. if P c then g c else c) xs)
         = map (\<lambda>c. if P c then g c else c) xs"
  by (induction xs) (simp_all add: assms)

lemma rewrite_instance_idem:
  "rewrite_instance form_id cat (rewrite_instance form_id cat i) = rewrite_instance form_id cat i"
proof -
  have "map (\<lambda>c. if tag c = clark ''xforms'' ''data'' then rewrite_data form_id c else c)
          (map (\<lambda>c. if tag c = clark ''xforms'' ''data'' then rewrite_data form_id c else c) (children i))
        = map (\<lambda>c. if tag c = clark ''xforms'' ''data'' then rewrite_data form_id c else c) (children i)"
    by (rule map_if_idem) (simp_all add: rewrite_data_idem)
  note m = this
  show ?thesis
    by (simp add: rewrite_instance_def Let_def rewrite_src_with_children rewrite_src_idem m del: map_map)
qed

lemma update_model_idem:
  "update_model form_id cat (update_model form_id cat m) = update_model form_id cat m"
proof -
  have "map (\<lambda>c. if tag c = clark ''xforms'' ''instance'' then rewrite_instance form_id cat c else c)
          (map (\<lambda>c. if tag c = clark ''xforms'' ''instance'' then rewrite_instance form_id cat c else c) (children m))
        = map (\<lambda>c. if tag c = clark ''xforms'' ''instance'' then rewrite_instance form_id cat c else c) (children m)"
    by (rule map_if_idem) (simp_all add: rewrite_instance_idem)
  note m = this
  show ?thesis
    by (simp add: update_model_def truthy_def m del: map_map)
qed

lemma update_head_idem:
  "update_head form_id cat (update_head form_id cat h) = update_head form_id cat h"
proof -
  have "map_first (\<lambda>c. tag c = clark ''xforms'' ''model'') (update_model form_id cat)
          (map_first (\<lambda>c. tag c = clark ''xforms'' ''model'') (update_model form_id cat) (children h))
        = map_first (\<lambda>c. tag c = clark ''xforms'' ''model'') (update_model form_id cat) (children h)"
    by (rule map_first_idem) (simp_all add: update_model_idem)
  note m = this
  show ?thesis
    by (simp add: update_head_def truthy_def m)
qed

lemma update_instances_idem:
  "update_instances form_id cat (update_instances form_id cat doc) = update_instances form_id cat doc"
proof -
  have "map_first (\<lambda>c. tag c = clark ''h'' ''head'') (update_head form_id cat)
          (map_first (\<lambda>c. tag c = clark ''h'' ''head'') (update_head form_id cat) (children doc))
        = map_first (\<lambda>c. tag c = clark ''h'' ''head'') (update_head form_id cat) (children doc)"
    by (rule map_first_idem) (simp_all add: update_head_idem)
  note m = this
  show ?thesis
    by (simp add: update_instances_def m)
qed

lemma instances_survey_form:
  "instances survey_form =
     [node (clark ''xforms'' ''instance'') []
          [node (clark ''xforms'' ''data'') [(''id'', ''survey''), (''version'', ''1'')]
             [leaf (clark ''xforms'' ''existing'') []]],
        leaf (clark ''xforms'' ''instance'') [(''id'', ''features''), (''src'', ''jr://file/features.geojson'')],
        leaf (clark ''xforms'' ''instance'') [(''id'', ''towns''), (''src'', ''jr://file-csv/towns.csv'')]]"
  by code_simp

lemma single_head_model_survey_form: "single_head_model survey_form"
  by code_simp

lemma survey_attrs:
  "attr ''src'' (node (clark ''xforms'' ''instance'') []
          [node (clark ''xforms'' ''data'') [(''id'', ''survey''), (''version'', ''1'')]
             [leaf (clark ''xforms'' ''existing'') []]]) = None"
  "attr ''src'' (leaf (clark ''xforms'' ''instance'') [(''id'', ''features''), (''src'', ''jr://file/features.geojson'')])
     = Some ''jr://file/features.geojson''"
  "attr ''src'' (leaf (clark ''xforms'' ''instance'') [(''id'', ''towns''), (''src'', ''jr://file-csv/towns.csv'')])
     = Some ''jr://file-csv/towns.csv''"
  "endswith ''jr://file/features.geojson'' ''.geojson''"
  "\<not> endswith ''jr://file-csv/towns.csv'' ''.geojson''"
  by code_simp+

lemma survey_data:
  "findall (clark ''xforms'' ''data'') (node (clark ''xforms'' ''instance'') []
          [node (clark ''xforms'' ''data'') [(''id'', ''survey''), (''version'', ''1'')]
             [leaf (clark ''xforms'' ''existing'') []]])
   = [node (clark ''xforms'' ''data'') [(''id'', ''survey''), (''version'', ''1'')]
             [leaf (clark ''xforms'' ''existing'') []]]"
  "attr ''id'' (node (clark ''xforms'' ''data'') [(''id'', ''survey''), (''version'', ''1'')]
             [leaf (clark ''xforms'' ''existing'') []]) = Some ''survey''"
  by code_simp+

subsection \<open>The rewriting inside \<open>generate_updated_xform\<close>\<close>

text \<open>
  For an input that is already XML and parses, \<open>generate_updated_xform\<close> writes
  the serialised rewritten tree to \<open>xform_path\<close>, with the stem of \<open>xform_path\<close> as
  the form identifier, and returns the path.
\<close>

lemma generate_updated_xform_xml:
  assumes "files w input_path = Some data" and "fromstring lib data = Inr doc"
  shows "generate_updated_xform lib input_path xform_path ''xml'' cat w
         = (Inr xform_path,
            write_file xform_path (tostring lib (update_instances (path_stem xform_path) cat doc)) w)"
  using assms by (simp add: generate_updated_xform_def read_xform_def read_file_def Let_def)

lemma read_file_write_file [simp]: "read_file (write_file p c w) p = Inr c"
  by (simp add: read_file_def write_file_def emit_def)

lemma read_file_Some: "files w p = Some c \<Longrightarrow> read_file w p = Inr c"
  by (simp add: read_file_def)

lemma generate_updated_xform_ok:
  assumes src: "(ext = ''xml'' \<and> files w input_path = Some data)
              \<or> (ext \<noteq> ''xml'' \<and> xls2xform_convert lib (files w) input_path = Inr data \<and> data \<noteq> [])"
    and parse: "fromstring lib data = Inr doc"
  shows "fst (generate_updated_xform lib input_path xform_path ext cat w) = Inr xform_path"
    and "files (snd (generate_updated_xform lib input_path xform_path ext cat w)) xform_path
         = Some (tostring lib (update_instances (path_stem xform_path) cat doc))"
proof -
  from src have r: "fst (read_xform lib input_path xform_path ext w) = Inr data"
    by (auto simp add: read_xform_def read_file_Some Let_def)
  obtain w1 where w1: "read_xform lib input_path xform_path ext w = (Inr data, w1)"
    using r by (cases "read_xform lib input_path xform_path ext w") simp
  have g: "generate_updated_xform lib input_path xform_path ext cat w
           = (Inr xform_path,
              write_file xform_path (tostring lib (update_instances (path_stem xform_path) cat doc)) w1)"
    by (simp add: generate_updated_xform_def w1 parse Let_def)
  show "fst (generate_updated_xform lib input_path xform_path ext cat w) = Inr xform_path"
    by (simp add: g)
  show "files (snd (generate_updated_xform lib input_path xform_path ext cat w)) xform_path
         = Some (tostring lib (update_instances (path_stem xform_path) cat doc))"
    by (simp add: g write_file_def emit_def)
qed

lemma survey_form_rewritten_eq:
  "update_instances ''form-42'' ''buildings'' survey_form = survey_form_rewritten"
  by code_simp

text \<open>
  C3. Whenever \<open>generate_updated_xform\<close> obtains a document (read as it is when
  the extension is \<open>xml\<close>, converted from the spreadsheet otherwise) and the
  document parses, it returns \<open>xform_path\<close> and the file at \<open>xform_path\<close> then holds
  the serialisation of the rewritten tree, in which, instance by instance and in
  order: a \<open>src\<close> ending in \<open>.geojson\<close> has become \<open>jr://file/<category>.geojson\<close>
  and any other \<open>src\<close> is as it was; every \<open>data\<close> child that carried an \<open>id\<close> has
  the stem of \<open>xform_path\<close> as its \<open>id\<close>, and a \<open>data\<close> child without \<open>id\<close> is
  unchanged. In a form document (one head, one model) the instances so matched
  are all the elements at \<open>head/model/instance\<close>, before and after.
\<close>

theorem generate_updated_xform_rewrites_bindings:
  assumes src: "(ext = ''xml'' \<and> files w input_path = Some data)
              \<or> (ext \<noteq> ''xml'' \<and> xls2xform_convert lib (files w) input_path = Inr data \<and> data \<noteq> [])"
    and parse: "fromstring lib data = Inr doc"
  shows "fst (generate_updated_xform lib input_path xform_path ext cat w) = Inr xform_path
   \<and> files (snd (generate_updated_xform lib input_path xform_path ext cat w)) xform_path
       = Some (tostring lib (update_instances (path_stem xform_path) cat doc))
   \<and> list_all2 (\<lambda>a b.
       tag b = tag a
     \<and> attr ''src'' b =
         (case attr ''src'' a of None \<Rightarrow> None
          | Some v \<Rightarrow> if endswith v ''.geojson'' then Some (''jr://file/'' @ cat @ ''.geojson'') else Some v)
     \<and> list_all2 (\<lambda>d d'. tag d' = tag d
                    \<and> (attr ''id'' d \<noteq> None \<longrightarrow> attr ''id'' d' = Some (path_stem xform_path))
                    \<and> (attr ''id'' d = None \<longrightarrow> d' = d))
         (findall (clark ''xforms'' ''data'') a) (findall (clark ''xforms'' ''data'') b))
     (instances doc) (instances (update_instances (path_stem xform_path) cat doc))
   \<and> (single_head_model doc \<longrightarrow>
        path_instances doc = instances doc
      \<and> path_instances (update_instances (path_stem xform_path) cat doc)
          = instances (update_instances (path_stem xform_path) cat doc))"
proof -
  note g = generate_updated_xform_ok [OF src parse, of xform_path cat]
  note u = update_instances_rewrites [of cat "path_stem xform_path" doc]
  from g(1) g(2) u show ?thesis
    by (intro conjI) (rule g(1), rule g(2), rule u [THEN conjunct1], rule u [THEN conjunct2])
qed

lemma form_lib_sel:
  "xls2xform_convert form_lib (files survey_world) ''/tmp/survey.xlsx'' = Inr ''<survey/>''"
  "fromstring form_lib ''<survey/>'' = Inr survey_form"
  "fromstring form_lib ''<rewritten/>'' = Inr survey_form_rewritten"
  "tostring form_lib survey_form_rewritten = ''<rewritten/>''"
  by (simp_all add: form_lib_def survey_world_def)

lemma rewritten_by_stem:
  "update_instances (path_stem ''/tmp/form-42.xml'') ''buildings'' survey_form = survey_form_rewritten"
  by (simp add: stem_form_42 survey_form_rewritten_eq)

theorem generate_updated_xform_rewrites_bindings_witness:
  "fst (generate_updated_xform form_lib ''/tmp/survey.xlsx'' ''/tmp/form-42.xml'' ''xlsx'' ''buildings'' survey_world)
     = Inr ''/tmp/form-42.xml''
   \<and> files (snd (generate_updated_xform form_lib ''/tmp/survey.xlsx'' ''/tmp/form-42.xml'' ''xlsx'' ''buildings''
                   survey_world)) ''/tmp/form-42.xml''
     = Some (tostring form_lib survey_form_rewritten)
   \<and> single_head_model survey_form
   \<and> map (attr ''src'') (path_instances survey_form_rewritten)
     = [None, Some ''jr://file/buildings.geojson'', Some ''jr://file-csv/towns.csv'']
   \<and> map (attr ''id'') (findall (clark ''xforms'' ''data'') (hd (path_instances survey_form_rewritten)))
     = [Some ''form-42'']"
proof -
  have src: "(''xlsx'' = ''xml'' \<and> files survey_world ''/tmp/survey.xlsx'' = Some ''<survey/>'')
              \<or> (''xlsx'' \<noteq> ''xml'' \<and> xls2xform_convert form_lib (files survey_world) ''/tmp/survey.xlsx'' = Inr ''<survey/>''
                  \<and> ''<survey/>'' \<noteq> [])"
    by (simp add: form_lib_sel)
  note T = generate_updated_xform_rewrites_bindings [OF src form_lib_sel(2), of "''/tmp/form-42.xml''" "''buildings''"]
  from T have 1: "fst (generate_updated_xform form_lib ''/tmp/survey.xlsx'' ''/tmp/form-42.xml'' ''xlsx'' ''buildings'' survey_world)
     = Inr ''/tmp/form-42.xml''"
    by (rule conjunct1)
  from T have 2: "files (snd (generate_updated_xform form_lib ''/tmp/survey.xlsx'' ''/tmp/form-42.xml'' ''xlsx'' ''buildings''
                   survey_world)) ''/tmp/form-42.xml''
     = Some (tostring form_lib survey_form_rewritten)"
    unfolding rewritten_by_stem by (rule conjunct2 [THEN conjunct1])
  from T [THEN conjunct2, THEN conjunct2, THEN conjunct2] single_head_model_survey_form
  have P: "path_instances survey_form_rewritten = instances survey_form_rewritten"
    unfolding rewritten_by_stem by blast
  from T [THEN conjunct2, THEN conjunct2, THEN conjunct1]
  have "map (attr ''src'') (instances survey_form_rewritten)
     = [None, Some ''jr://file/buildings.geojson'', Some ''jr://file-csv/towns.csv'']
   \<and> map (attr ''id'') (findall (clark ''xforms'' ''data'') (hd (instances survey_form_rewritten)))
     = [Some ''form-42'']"
    unfolding stem_form_42 survey_form_rewritten_eq instances_survey_form
    by (auto simp add: list_all2_Cons1 survey_attrs survey_data)
  with 1 2 P single_head_model_survey_form show ?thesis by simp
qed

text \<open>
  C4. Rewriting is idempotent. On the tree: for every document, form identifier
  and category, rewriting a second time changes nothing. On the files: when the
  parser reads back what the serialiser wrote, running \<open>generate_updated_xform\<close>
  again on its own output leaves every file as the first run left it. After one
  rewriting every \<open>data\<close> child of a visited instance that carries an \<open>id\<close> has
  the form identifier as its \<open>id\<close>; in a form document (one head, one model) that
  is every \<open>data\<close> child of every element at \<open>head/model/instance\<close>.
\<close>

theorem generate_updated_xform_idempotent:
  "update_instances form_id cat (update_instances form_id cat doc) = update_instances form_id cat doc
   \<and> (\<forall>inst \<in> set (instances (update_instances form_id cat doc)).
        \<forall>dt \<in> set (findall (clark ''xforms'' ''data'') inst).
          attr ''id'' dt \<noteq> None \<longrightarrow> attr ''id'' dt = Some form_id)
   \<and> (single_head_model doc \<longrightarrow>
        (\<forall>inst \<in> set (path_instances (update_instances form_id cat doc)).
           \<forall>dt \<in> set (findall (clark ''xforms'' ''data'') inst).
             attr ''id'' dt \<noteq> None \<longrightarrow> attr ''id'' dt = Some form_id))
   \<and> (((ext = ''xml'' \<and> files w input_path = Some data)
          \<or> (ext \<noteq> ''xml'' \<and> xls2xform_convert lib (files w) input_path = Inr data \<and> data \<noteq> []))
        \<and> fromstring lib data = Inr doc
        \<and> fromstring lib (tostring lib (update_instances (path_stem xform_path) cat doc))
            = Inr (update_instances (path_stem xform_path) cat doc) \<longrightarrow>
        fst (generate_updated_xform lib xform_path xform_path ''xml'' cat
               (snd (generate_updated_xform lib input_path xform_path ext cat w))) = Inr xform_path
      \<and> files (snd (generate_updated_xform lib xform_path xform_path ''xml'' cat
                       (snd (generate_updated_xform lib input_path xform_path ext cat w))))
          = files (snd (generate_updated_xform lib input_path xform_path ext cat w))
      \<and> files (snd (generate_updated_xform lib input_path xform_path ext cat w)) xform_path
          = Some (tostring lib (update_instances (path_stem xform_path) cat doc)))"
proof -
  have A: "update_instances form_id cat (update_instances form_id cat doc) = update_instances form_id cat doc"
    by (rule update_instances_idem)
  have B: "\<forall>inst \<in> set (instances (update_instances form_id cat doc)).
        \<forall>dt \<in> set (findall (clark ''xforms'' ''data'') inst).
          attr ''id'' dt \<noteq> None \<longrightarrow> attr ''id'' dt = Some form_id"
  proof (intro ballI impI)
    fix inst dt
    assume i: "inst \<in> set (instances (update_instances form_id cat doc))"
      and d: "dt \<in> set (findall (clark ''xforms'' ''data'') inst)"
      and a: "attr ''id'' dt \<noteq> None"
    from i obtain i0 where inst: "inst = rewrite_instance form_id cat i0"
      unfolding instances_update_instances by auto
    from d obtain d0 where dt: "dt = rewrite_data form_id d0"
      unfolding inst findall_data_rewrite_instance by auto
    from a show "attr ''id'' dt = Some form_id"
      unfolding dt by (simp add: attr_id_rewrite_data split: if_splits)
  qed
  have C: "single_head_model doc \<longrightarrow>
        (\<forall>inst \<in> set (path_instances (update_instances form_id cat doc)).
           \<forall>dt \<in> set (findall (clark ''xforms'' ''data'') inst).
             attr ''id'' dt \<noteq> None \<longrightarrow> attr ''id'' dt = Some form_id)"
  proof
    assume "single_head_model doc"
    then have "path_instances (update_instances form_id cat doc) = instances (update_instances form_id cat doc)"
      by (intro path_instances_single single_head_model_update_instances)
    with B show "\<forall>inst \<in> set (path_instances (update_instances form_id cat doc)).
           \<forall>dt \<in> set (findall (clark ''xforms'' ''data'') inst).
             attr ''id'' dt \<noteq> None \<longrightarrow> attr ''id'' dt = Some form_id"
      by simp
  qed
  have D: "((ext = ''xml'' \<and> files w input_path = Some data)
          \<or> (ext \<noteq> ''xml'' \<and> xls2xform_convert lib (files w) input_path = Inr data \<and> data \<noteq> []))
        \<and> fromstring lib data = Inr doc
        \<and> fromstring lib (tostring lib (update_instances (path_stem xform_path) cat doc))
            = Inr (update_instances (path_stem xform_path) cat doc) \<longrightarrow>
        fst (generate_updated_xform lib xform_path xform_path ''xml'' cat
               (snd (generate_updated_xform lib input_path xform_path ext cat w))) = Inr xform_path
      \<and> files (snd (generate_updated_xform lib xform_path xform_path ''xml'' cat
                       (snd (generate_updated_xform lib input_path xform_path ext cat w))))
          = files (snd (generate_updated_xform lib input_path xform_path ext cat w))
      \<and> files (snd (generate_updated_xform lib input_path xform_path ext cat w)) xform_path
          = Some (tostring lib (update_instances (path_stem xform_path) cat doc))"
  proof (intro impI)
    let ?D = "update_instances (path_stem xform_path) cat doc"
    let ?w1 = "snd (generate_updated_xform lib input_path xform_path ext cat w)"
    assume h: "((ext = ''xml'' \<and> files w input_path = Some data)
          \<or> (ext \<noteq> ''xml'' \<and> xls2xform_convert lib (files w) input_path = Inr data \<and> data \<noteq> []))
        \<and> fromstring lib data = Inr doc
        \<and> fromstring lib (tostring lib ?D) = Inr ?D"
    then have src: "(ext = ''xml'' \<and> files w input_path = Some data)
          \<or> (ext \<noteq> ''xml'' \<and> xls2xform_convert lib (files w) input_path = Inr data \<and> data \<noteq> [])"
      and parse: "fromstring lib data = Inr doc"
      and rtrip: "fromstring lib (tostring lib ?D) = Inr ?D"
      by simp_all
    note run1 = generate_updated_xform_ok [OF src parse, of xform_path cat]
    from run1(2) have f1: "files ?w1 xform_path = Some (tostring lib ?D)" .
    have idem: "update_instances (path_stem xform_path) cat ?D = ?D"
      by (rule update_instances_idem)
    have run2: "generate_updated_xform lib xform_path xform_path ''xml'' cat ?w1
                  = (Inr xform_path, write_file xform_path (tostring lib ?D) ?w1)"
      using generate_updated_xform_xml [OF f1 rtrip, of xform_path cat] by (simp add: idem)
    have same: "files (write_file xform_path (tostring lib ?D) ?w1) = files ?w1"
      using f1 by (auto simp add: write_file_def emit_def)
    show "fst (generate_updated_xform lib xform_path xform_path ''xml'' cat ?w1) = Inr xform_path
      \<and> files (snd (generate_updated_xform lib xform_path xform_path ''xml'' cat ?w1)) = files ?w1
      \<and> files ?w1 xform_path = Some (tostring lib ?D)"
      by (simp add: run2 same f1)
  qed
  show ?thesis
    by (rule conjI [OF A conjI [OF B conjI [OF C D]]])
qed

lemma path_instances_rewritten_survey_form:
  "path_instances (update_instances ''form-42'' ''buildings'' survey_form) =
     [node (clark ''xforms'' ''instance'') []
          [node (clark ''xforms'' ''data'') [(''id'', ''form-42''), (''version'', ''1'')]
             [leaf (clark ''xforms'' ''existing'') []]],
        leaf (clark ''xforms'' ''instance'') [(''id'', ''features''), (''src'', ''jr://file/buildings.geojson'')],
        leaf (clark ''xforms'' ''instance'') [(''id'', ''towns''), (''src'', ''jr://file-csv/towns.csv'')]]"
  by code_simp

theorem generate_updated_xform_idempotent_witness:
  "single_head_model survey_form
   \<and> node (clark ''xforms'' ''instance'') []
          [node (clark ''xforms'' ''data'') [(''id'', ''form-42''), (''version'', ''1'')]
             [leaf (clark ''xforms'' ''existing'') []]]
     \<in> set (path_instances (update_instances ''form-42'' ''buildings'' survey_form))
   \<and> node (clark ''xforms'' ''data'') [(''id'', ''form-42''), (''version'', ''1'')]
             [leaf (clark ''xforms'' ''existing'') []]
     \<in> set (findall (clark ''xforms'' ''data'')
         (node (clark ''xforms'' ''instance'') []
          [node (clark ''xforms'' ''data'') [(''id'', ''form-42''), (''version'', ''1'')]
             [leaf (clark ''xforms'' ''existing'') []]]))
   \<and> attr ''id'' (node (clark ''xforms'' ''data'') [(''id'', ''form-42''), (''version'', ''1'')]
             [leaf (clark ''xforms'' ''existing'') []]) = Some ''form-42''
   \<and> update_instances ''form-42'' ''buildings'' (update_instances ''form-42'' ''buildings'' survey_form)
     = update_instances ''form-42'' ''buildings'' survey_form
   \<and> fromstring form_lib (tostring form_lib survey_form_rewritten) = Inr survey_form_rewritten
   \<and> fst (generate_updated_xform form_lib ''/tmp/form-42.xml'' ''/tmp/form-42.xml'' ''xml'' ''buildings''
            (snd (generate_updated_xform form_lib ''/tmp/survey.xlsx'' ''/tmp/form-42.xml'' ''xlsx'' ''buildings''
                    survey_world))) = Inr ''/tmp/form-42.xml''
   \<and> files (snd (generate_updated_xform form_lib ''/tmp/form-42.xml'' ''/tmp/form-42.xml'' ''xml'' ''buildings''
            (snd (generate_updated_xform form_lib ''/tmp/survey.xlsx'' ''/tmp/form-42.xml'' ''xlsx'' ''buildings''
                    survey_world))))
     = files (snd (generate_updated_xform form_lib ''/tmp/survey.xlsx'' ''/tmp/form-42.xml'' ''xlsx'' ''buildings''
                    survey_world))
   \<and> files (snd (generate_updated_xform form_lib ''/tmp/survey.xlsx'' ''/tmp/form-42.xml'' ''xlsx'' ''buildings''
                    survey_world)) ''/tmp/form-42.xml'' = Some ''<rewritten/>''"
proof -
  let ?i = "node (clark ''xforms'' ''instance'') []
          [node (clark ''xforms'' ''data'') [(''id'', ''form-42''), (''version'', ''1'')]
             [leaf (clark ''xforms'' ''existing'') []]]"
  let ?d = "node (clark ''xforms'' ''data'') [(''id'', ''form-42''), (''version'', ''1'')]
             [leaf (clark ''xforms'' ''existing'') []]"
  let ?w1 = "snd (generate_updated_xform form_lib ''/tmp/survey.xlsx'' ''/tmp/form-42.xml'' ''xlsx'' ''buildings''
                    survey_world)"
  note T = generate_updated_xform_idempotent [where form_id = "''form-42''" and cat = "''buildings''"
      and doc = survey_form and ext = "''xlsx''" and w = survey_world and input_path = "''/tmp/survey.xlsx''"
      and data = "''<survey/>''" and lib = form_lib and xform_path = "''/tmp/form-42.xml''"]
  have s: "single_head_model survey_form" by (rule single_head_model_survey_form)
  have 1: "?i \<in> set (path_instances (update_instances ''form-42'' ''buildings'' survey_form))"
    unfolding path_instances_rewritten_survey_form by simp
  have 2: "?d \<in> set (findall (clark ''xforms'' ''data'') ?i)"
    by (simp add: findall_def node_def)
  have 3: "attr ''id'' ?d \<noteq> None"
    by (simp add: attr_def node_def)
  from T [THEN conjunct2, THEN conjunct2, THEN conjunct1] s 1 2 3
  have 4: "attr ''id'' ?d = Some ''form-42''"
    by blast
  from T have 5: "update_instances ''form-42'' ''buildings'' (update_instances ''form-42'' ''buildings'' survey_form)
     = update_instances ''form-42'' ''buildings'' survey_form"
    by (rule conjunct1)
  have rt: "fromstring form_lib (tostring form_lib survey_form_rewritten) = Inr survey_form_rewritten"
    by (simp add: form_lib_sel)
  have hyp: "((''xlsx'' = ''xml'' \<and> files survey_world ''/tmp/survey.xlsx'' = Some ''<survey/>'')
          \<or> (''xlsx'' \<noteq> ''xml'' \<and> xls2xform_convert form_lib (files survey_world) ''/tmp/survey.xlsx'' = Inr ''<survey/>''
              \<and> ''<survey/>'' \<noteq> []))
        \<and> fromstring form_lib ''<survey/>'' = Inr survey_form
        \<and> fromstring form_lib (tostring form_lib (update_instances (path_stem ''/tmp/form-42.xml'') ''buildings'' survey_form))
            = Inr (update_instances (path_stem ''/tmp/form-42.xml'') ''buildings'' survey_form)"
    unfolding rewritten_by_stem by (simp add: form_lib_sel)
  from T [THEN conjunct2, THEN conjunct2, THEN conjunct2] hyp
  have 6: "fst (generate_updated_xform form_lib ''/tmp/form-42.xml'' ''/tmp/form-42.xml'' ''xml'' ''buildings'' ?w1)
             = Inr ''/tmp/form-42.xml''
      \<and> files (snd (generate_updated_xform form_lib ''/tmp/form-42.xml'' ''/tmp/form-42.xml'' ''xml'' ''buildings'' ?w1))
          = files ?w1
      \<and> files ?w1 ''/tmp/form-42.xml''
          = Some (tostring form_lib (update_instances (path_stem ''/tmp/form-42.xml'') ''buildings'' survey_form))"
    by blast
  then have 7: "files ?w1 ''/tmp/form-42.xml'' = Some ''<rewritten/>''"
    unfolding rewritten_by_stem by (simp add: form_lib_sel)
  from s 1 2 4 5 rt 6 7 show ?thesis by blast
qed

section \<open>Properties of the validity check\<close>

lemma test_form_validity_try_convert_raises:
  assumes "xls2xform_convert lib (files (write_file (''/tmp/validate_form.'' @ ft) c w)) (''/tmp/validate_form.'' @ ft) = Inl e"
  shows "fst (test_form_validity_try lib c ft w) = Inl e"
  using assms by (simp add: test_form_validity_try_def Let_def)

lemma test_form_validity_try_parse:
  assumes "xls2xform_convert lib (files (write_file (''/tmp/validate_form.'' @ ft) c w)) (''/tmp/validate_form.'' @ ft) = Inr xml"
  shows "fst (test_form_validity_try lib c ft w) =
           (case fromstring lib xml of
              Inl e \<Rightarrow> Inl e
            | Inr doc \<Rightarrow> Inr (ResultDict (collect_media (findall_instances_src doc) []) ''Your form is valid''))"
  using assms by (simp add: test_form_validity_try_def Let_def split: sum.splits)

lemma fst_test_form_validity:
  "fst (test_form_validity lib c ft w) =
     (case fst (test_form_validity_try lib c ft w) of
        Inl e \<Rightarrow> Inr (JSONResponse ''Your form is invalid'' (exn_str e) 400)
      | Inr r \<Rightarrow> Inr r)"
  by (simp add: test_form_validity_def split: prod.splits sum.splits)

text \<open>
  C10. For every content, form type, conversion and parser, \<open>test_form_validity\<close>
  returns a value and never an exception: either the dict with the media names
  and the message \<open>'Your form is valid'\<close>, or the 400 response with the message
  \<open>'Your form is invalid'\<close> and a reason. When the conversion or the parsing raises,
  it is the response, with the text of the exception as the reason; when both
  succeed, it is the dict with the names collected from the parsed document.
\<close>

theorem test_form_validity_total:
  "((\<exists>names. fst (test_form_validity lib c ft w) = Inr (ResultDict names ''Your form is valid''))
     \<or> (\<exists>reason. fst (test_form_validity lib c ft w) = Inr (JSONResponse ''Your form is invalid'' reason 400)))
   \<and> (\<forall>e. xls2xform_convert lib (files (write_file (''/tmp/validate_form.'' @ ft) c w)) (''/tmp/validate_form.'' @ ft) = Inl e \<longrightarrow>
          fst (test_form_validity lib c ft w) = Inr (JSONResponse ''Your form is invalid'' (exn_str e) 400))
   \<and> (\<forall>xml e. xls2xform_convert lib (files (write_file (''/tmp/validate_form.'' @ ft) c w)) (''/tmp/validate_form.'' @ ft) = Inr xml
          \<and> fromstring lib xml = Inl e \<longrightarrow>
          fst (test_form_validity lib c ft w) = Inr (JSONResponse ''Your form is invalid'' (exn_str e) 400))
   \<and> (\<forall>xml doc. xls2xform_convert lib (files (write_file (''/tmp/validate_form.'' @ ft) c w)) (''/tmp/validate_form.'' @ ft) = Inr xml
          \<and> fromstring lib xml = Inr doc \<longrightarrow>
          fst (test_form_validity lib c ft w)
            = Inr (ResultDict (collect_media (findall_instances_src doc) []) ''Your form is valid''))"
proof (cases "xls2xform_convert lib (files (write_file (''/tmp/validate_form.'' @ ft) c w)) (''/tmp/validate_form.'' @ ft)")
  case (Inl e)
  then show ?thesis
    by (simp add: fst_test_form_validity test_form_validity_try_convert_raises)
next
  case (Inr xml)
  then show ?thesis
    by (cases "fromstring lib xml") (simp_all add: fst_test_form_validity test_form_validity_try_parse)
qed

lemma demo_lib_sel:
  "xls2xform_convert demo_lib (files (write_file (''/tmp/validate_form.'' @ ''xlsx'') ''broken'' empty_world))
     (''/tmp/validate_form.'' @ ''xlsx'') = Inl (Error ''PyXFormError'' ''no survey sheet'')"
  "xls2xform_convert demo_lib (files (write_file (''/tmp/validate_form.'' @ ''xlsx'') ''sheet'' empty_world))
     (''/tmp/validate_form.'' @ ''xlsx'') = Inr ''<h:html/>''"
  "fromstring demo_lib s = Inr survey_form"
  by (simp_all add: demo_lib_def write_file_def emit_def)

lemma collect_media_survey_form: "collect_media (findall_instances_src survey_form) [] = [''features'']"
  by code_simp

theorem test_form_validity_total_witness:
  "fst (test_form_validity demo_lib ''broken'' ''xlsx'' empty_world)
     = Inr (JSONResponse ''Your form is invalid'' ''no survey sheet'' 400)
   \<and> fst (test_form_validity demo_lib ''sheet'' ''xlsx'' empty_world)
     = Inr (ResultDict [''features''] ''Your form is valid'')"
proof -
  from test_form_validity_total [of demo_lib "''broken''" "''xlsx''" empty_world] demo_lib_sel(1)
  have 1: "fst (test_form_validity demo_lib ''broken'' ''xlsx'' empty_world)
     = Inr (JSONResponse ''Your form is invalid'' (exn_str (Error ''PyXFormError'' ''no survey sheet'')) 400)"
    by blast
  from test_form_validity_total [of demo_lib "''sheet''" "''xlsx''" empty_world] demo_lib_sel(2) demo_lib_sel(3)
  have 2: "fst (test_form_validity demo_lib ''sheet'' ''xlsx'' empty_world)
     = Inr (ResultDict (collect_media (findall_instances_src survey_form) []) ''Your form is valid'')"
    by blast
  from 1 2 show ?thesis
    by (simp add: exn_str_def collect_media_survey_form)
qed

section \<open>Properties of the conversion of submissions\<close>

lemma write_both_sel [simp]:
  "osm (write_both f st) = osm st @ [f]" "geojson (write_both f st) = geojson st @ [f]"
  "osm_finished (write_both f st) = osm_finished st" "geojson_finished (write_both f st) = geojson_finished st"
  "warnings (write_both f st) = warnings st"
  by (simp_all add: write_both_def writeOSM_def writeGeoJson_def)

lemma finish_both_sel [simp]:
  "osm (finish_both st) = osm st" "geojson (finish_both st) = geojson st"
  "osm_finished (finish_both st)" "geojson_finished (finish_both st)"
  "warnings (finish_both st) = warnings st"
  by (simp_all add: finish_both_def finishOSM_def finishGeoJson_def)

lemma created_sel [simp]:
  "osm (created f) = []" "geojson (created f) = []" "warnings (created f) = []"
  by (simp_all add: created_def)

lemma process_entry_sync:
  "osm st = geojson st \<Longrightarrow> osm (snd (process_entry cv n entry st)) = geojson (snd (process_entry cv n entry st))"
  by (simp add: process_entry_def split: sum.splits option.splits)

lemma process_entries_sync:
  "osm st = geojson st \<Longrightarrow> osm (snd (process_entries cv n es st)) = geojson (snd (process_entries cv n es st))"
proof (induction es arbitrary: st)
  case Nil
  then show ?case by simp
next
  case (Cons entry es)
  from Cons.prems have s: "osm (snd (process_entry cv n entry st)) = geojson (snd (process_entry cv n entry st))"
    by (rule process_entry_sync)
  show ?case
  proof (cases "process_entry cv n entry st")
    case (Pair r st')
    with s have "osm st' = geojson st'" by simp
    with Pair Cons.IH [of st'] show ?thesis
      by (cases r) simp_all
  qed
qed

lemma snd_convert_csv:
  "snd (convert_csv cv filespec data) =
     (if length data = 0 then
        (case parse_file cv filespec of Inl e \<Rightarrow> created filespec | Inr parsed \<Rightarrow> finish_both (created filespec))
      else
        (case parse_data cv filespec data of
           Inl e \<Rightarrow> created filespec
         | Inr csvdata \<Rightarrow>
             (case fst (process_entries cv (length data) csvdata (created filespec)) of
                Some e \<Rightarrow> snd (process_entries cv (length data) csvdata (created filespec))
              | None \<Rightarrow> finish_both (snd (process_entries cv (length data) csvdata (created filespec))))))"
  by (simp add: convert_csv_def split: sum.splits prod.splits option.splits)

lemma convert_csv_sync:
  "osm (snd (convert_csv cv filespec data)) = geojson (snd (convert_csv cv filespec data))"
proof -
  have "osm (snd (process_entries cv n es (created filespec)))
        = geojson (snd (process_entries cv n es (created filespec)))" for n es
    by (rule process_entries_sync) simp
  then show ?thesis
    by (simp add: snd_convert_csv split: sum.splits option.splits)
qed

lemma convert_csv_finished:
  "fst (convert_csv cv filespec data) = Inr b \<Longrightarrow>
     osm_finished (snd (convert_csv cv filespec data)) \<and> geojson_finished (snd (convert_csv cv filespec data))"
  by (auto simp add: convert_csv_def split: sum.splits prod.splits option.splits if_splits)

lemma process_entry_ok:
  assumes "1 < n" and "createEntry cv entry = Inr f" and "has_tags f \<longrightarrow> has_geometry f"
  shows "process_entry cv n entry st =
           (None, if has_tags f then write_both f st
                  else if f \<noteq> [] then st\<lparr>warnings := warnings st @ [f]\<rparr> else st)"
  using assms
  by (auto simp add: process_entry_def has_tags_def has_geometry_def split: option.splits)

lemma process_entries_ok:
  assumes "1 < n"
    and "\<forall>entry \<in> set es. \<exists>f. createEntry cv entry = Inr f \<and> (has_tags f \<longrightarrow> has_geometry f)"
  shows "fst (process_entries cv n es st) = None
       \<and> osm (snd (process_entries cv n es st)) = osm st @ filter has_tags (map (feature_of cv) es)
       \<and> geojson (snd (process_entries cv n es st)) = geojson st @ filter has_tags (map (feature_of cv) es)
       \<and> warnings (snd (process_entries cv n es st))
           = warnings st @ filter (\<lambda>f. f \<noteq> [] \<and> \<not> has_tags f) (map (feature_of cv) es)"
  using assms(2)
proof (induction es arbitrary: st)
  case Nil
  then show ?case by simp
next
  case (Cons entry es)
  then obtain f where f: "createEntry cv entry = Inr f" and g: "has_tags f \<longrightarrow> has_geometry f"
    by auto
  from Cons.prems have rest: "\<forall>entry \<in> set es. \<exists>f. createEntry cv entry = Inr f \<and> (has_tags f \<longrightarrow> has_geometry f)"
    by simp
  note step = process_entry_ok [OF assms(1) f g, of st]
  have fo: "feature_of cv entry = f" by (simp add: feature_of_def f)
  show ?case
    using Cons.IH [OF rest] by (simp add: step fo)
qed

lemma fst_convert_csv:
  "fst (convert_csv cv filespec data) =
     (if length data = 0 then
        (case parse_file cv filespec of Inl e \<Rightarrow> Inl e | Inr parsed \<Rightarrow> Inr True)
      else
        (case parse_data cv filespec data of
           Inl e \<Rightarrow> Inl e
         | Inr csvdata \<Rightarrow>
             (case fst (process_entries cv (length data) csvdata (created filespec)) of
                Some e \<Rightarrow> Inl e
              | None \<Rightarrow> Inr True)))"
  by (simp add: convert_csv_def split: sum.splits prod.splits option.splits)

text \<open>
  After any call of \<open>convert_csv\<close> the two outputs hold the same features in the
  same order, and after any call that returns both streams are finished. For a
  batch passed as a payload of more than one byte, whose parse returns and each
  of whose records converts to a feature that the loop skips or that has
  coordinates: the call returns \<open>True\<close>, each output holds exactly the features
  the loop keeps, one per record and in the order of the records, and both
  streams are finished.
\<close>

lemma convert_csv_outputs_in_sync:
  "osm (snd (convert_csv cv filespec data)) = geojson (snd (convert_csv cv filespec data))
   \<and> (\<forall>b. fst (convert_csv cv filespec data) = Inr b \<longrightarrow>
         osm_finished (snd (convert_csv cv filespec data)) \<and> geojson_finished (snd (convert_csv cv filespec data)))
   \<and> (\<forall>csvdata. 1 < length data \<and> parse_data cv filespec data = Inr csvdata
         \<and> (\<forall>entry \<in> set csvdata. \<exists>f. createEntry cv entry = Inr f \<and> (has_tags f \<longrightarrow> has_geometry f)) \<longrightarrow>
         fst (convert_csv cv filespec data) = Inr True
       \<and> osm (snd (convert_csv cv filespec data)) = filter has_tags (map (feature_of cv) csvdata)
       \<and> geojson (snd (convert_csv cv filespec data)) = filter has_tags (map (feature_of cv) csvdata)
       \<and> osm_finished (snd (convert_csv cv filespec data))
       \<and> geojson_finished (snd (convert_csv cv filespec data)))"
proof (intro conjI allI impI)
  show "osm (snd (convert_csv cv filespec data)) = geojson (snd (convert_csv cv filespec data))"
    by (rule convert_csv_sync)
next
  fix b
  assume "fst (convert_csv cv filespec data) = Inr b"
  then have f: "osm_finished (snd (convert_csv cv filespec data))
              \<and> geojson_finished (snd (convert_csv cv filespec data))"
    by (rule convert_csv_finished)
  from f show "osm_finished (snd (convert_csv cv filespec data))" by simp
  from f show "geojson_finished (snd (convert_csv cv filespec data))" by simp
next
  fix csvdata
  assume a: "1 < length data \<and> parse_data cv filespec data = Inr csvdata
         \<and> (\<forall>entry \<in> set csvdata. \<exists>f. createEntry cv entry = Inr f \<and> (has_tags f \<longrightarrow> has_geometry f))"
  then have n: "1 < length data" and p: "parse_data cv filespec data = Inr csvdata"
    and ok: "\<forall>entry \<in> set csvdata. \<exists>f. createEntry cv entry = Inr f \<and> (has_tags f \<longrightarrow> has_geometry f)"
    by simp_all
  note pe = process_entries_ok [OF n ok, of "created filespec"]
  from n have ne: "data \<noteq> []" by auto
  show "fst (convert_csv cv filespec data) = Inr True"
    by (simp add: fst_convert_csv ne p pe)
  show "osm (snd (convert_csv cv filespec data)) = filter has_tags (map (feature_of cv) csvdata)"
    by (simp add: snd_convert_csv ne p pe)
  show "geojson (snd (convert_csv cv filespec data)) = filter has_tags (map (feature_of cv) csvdata)"
    by (simp add: snd_convert_csv ne p pe)
  show "osm_finished (snd (convert_csv cv filespec data))"
    by (simp add: snd_convert_csv ne p pe)
  show "geojson_finished (snd (convert_csv cv filespec data))"
    by (simp add: snd_convert_csv ne p pe)
qed

lemma demo_features:
  "createEntry demo_csv good_row
     = Inr [(''attrs'', [(''id'', ''1''), (''lat'', ''27.7''), (''lon'', ''85.3'')]), (''tags'', [(''building'', ''yes'')])]"
  "createEntry demo_csv no_tags_row = Inr [(''attrs'', [(''id'', ''3''), (''lat'', ''27.8''), (''lon'', ''85.4'')])]"
  "createEntry demo_csv no_lat_row = Inr [(''attrs'', [(''id'', ''2'')]), (''tags'', [(''building'', ''yes'')])]"
  by (simp_all add: demo_csv_def demo_createEntry_def good_row_def no_tags_row_def no_lat_row_def)

lemma demo_has_tags:
  "has_tags [(''attrs'', [(''id'', ''1''), (''lat'', ''27.7''), (''lon'', ''85.3'')]), (''tags'', [(''building'', ''yes'')])]"
  "has_geometry [(''attrs'', [(''id'', ''1''), (''lat'', ''27.7''), (''lon'', ''85.3'')]), (''tags'', [(''building'', ''yes'')])]"
  "\<not> has_tags [(''attrs'', [(''id'', ''3''), (''lat'', ''27.8''), (''lon'', ''85.4'')])]"
  "has_tags [(''attrs'', [(''id'', ''2'')]), (''tags'', [(''building'', ''yes'')])]"
  "\<not> has_geometry [(''attrs'', [(''id'', ''2'')]), (''tags'', [(''building'', ''yes'')])]"
  by (simp_all add: has_tags_def has_geometry_def)

lemma convert_csv_outputs_in_sync_demo:
  "1 < length ''id,lat,lon,building''
   \<and> parse_data demo_csv ''subs.csv'' ''id,lat,lon,building'' = Inr [no_tags_row, good_row]
   \<and> fst (convert_csv demo_csv ''subs.csv'' ''id,lat,lon,building'') = Inr True
   \<and> osm (snd (convert_csv demo_csv ''subs.csv'' ''id,lat,lon,building''))
     = [[(''attrs'', [(''id'', ''1''), (''lat'', ''27.7''), (''lon'', ''85.3'')]), (''tags'', [(''building'', ''yes'')])]]
   \<and> geojson (snd (convert_csv demo_csv ''subs.csv'' ''id,lat,lon,building''))
     = [[(''attrs'', [(''id'', ''1''), (''lat'', ''27.7''), (''lon'', ''85.3'')]), (''tags'', [(''building'', ''yes'')])]]
   \<and> osm_finished (snd (convert_csv demo_csv ''subs.csv'' ''id,lat,lon,building''))
   \<and> geojson_finished (snd (convert_csv demo_csv ''subs.csv'' ''id,lat,lon,building''))"
proof -
  have n: "1 < length ''id,lat,lon,building''" by simp
  have p: "parse_data demo_csv ''subs.csv'' ''id,lat,lon,building'' = Inr [no_tags_row, good_row]"
    by (simp add: demo_csv_def)
  have ok: "\<forall>entry \<in> set [no_tags_row, good_row].
              \<exists>f. createEntry demo_csv entry = Inr f \<and> (has_tags f \<longrightarrow> has_geometry f)"
    by (simp add: demo_features demo_has_tags)
  have fs: "filter has_tags (map (feature_of demo_csv) [no_tags_row, good_row])
     = [[(''attrs'', [(''id'', ''1''), (''lat'', ''27.7''), (''lon'', ''85.3'')]), (''tags'', [(''building'', ''yes'')])]]"
    by (simp add: feature_of_def demo_features demo_has_tags)
  from convert_csv_outputs_in_sync [of demo_csv "''subs.csv''" "''id,lat,lon,building''"] n p ok
  have "fst (convert_csv demo_csv ''subs.csv'' ''id,lat,lon,building'') = Inr True
       \<and> osm (snd (convert_csv demo_csv ''subs.csv'' ''id,lat,lon,building''))
          = filter has_tags (map (feature_of demo_csv) [no_tags_row, good_row])
       \<and> geojson (snd (convert_csv demo_csv ''subs.csv'' ''id,lat,lon,building''))
          = filter has_tags (map (feature_of demo_csv) [no_tags_row, good_row])
       \<and> osm_finished (snd (convert_csv demo_csv ''subs.csv'' ''id,lat,lon,building''))
       \<and> geojson_finished (snd (convert_csv demo_csv ''subs.csv'' ''id,lat,lon,building''))"
    by blast
  with n p fs show ?thesis by simp
qed

text \<open>
  C7 (the code at the failing input). The batch is read from the file: the
  payload is empty and the file holds one record, whose feature has a populated
  tag set and coordinates. The rows are parsed and none is written: the call
  returns \<open>True\<close> with both outputs empty and finished. The same record passed in
  the payload is written once to each output.
\<close>

theorem convert_csv_file_branch_at_input:
  "parse_file demo_csv ''subs.csv'' = Inr [good_row]
   \<and> createEntry demo_csv good_row
     = Inr [(''attrs'', [(''id'', ''1''), (''lat'', ''27.7''), (''lon'', ''85.3'')]), (''tags'', [(''building'', ''yes'')])]
   \<and> populated_tags [(''attrs'', [(''id'', ''1''), (''lat'', ''27.7''), (''lon'', ''85.3'')]), (''tags'', [(''building'', ''yes'')])]
   \<and> has_geometry [(''attrs'', [(''id'', ''1''), (''lat'', ''27.7''), (''lon'', ''85.3'')]), (''tags'', [(''building'', ''yes'')])]
   \<and> convert_csv demo_csv ''subs.csv'' []
     = (Inr True,
        \<lparr>osm_file = ''subs.csv.osm'', osm = [], osm_finished = True,
         geojson_file = ''subs.csv.geojson'', geojson = [], geojson_finished = True,
         warnings = []\<rparr>)
   \<and> parse_data demo_csv ''subs.csv'' ''id,lat,lon,building'' = Inr [no_tags_row, good_row]
   \<and> osm (snd (convert_csv demo_csv ''subs.csv'' ''id,lat,lon,building''))
     = [[(''attrs'', [(''id'', ''1''), (''lat'', ''27.7''), (''lon'', ''85.3'')]), (''tags'', [(''building'', ''yes'')])]]
   \<and> geojson (snd (convert_csv demo_csv ''subs.csv'' ''id,lat,lon,building''))
     = [[(''attrs'', [(''id'', ''1''), (''lat'', ''27.7''), (''lon'', ''85.3'')]), (''tags'', [(''building'', ''yes'')])]]"
  by code_simp

text \<open>
  C6 (the code at the failing input). The batch holds a record with tags and no
  \<open>lat\<close>, then a good record. When the debugger session opened by \<open>epdb.st()\<close> is
  resumed, the record without coordinates is written to both outputs and no
  warning is logged; when \<open>import epdb\<close> raises, the exception ends the batch:
  nothing is written, the good record is never reached, no stream is finished.
\<close>

theorem convert_csv_missing_lat_at_input:
  "createEntry no_lat_csv no_lat_row = Inr [(''attrs'', [(''id'', ''2'')]), (''tags'', [(''building'', ''yes'')])]
   \<and> convert_csv no_lat_csv ''subs.csv'' ''id,building''
     = (Inr True,
        \<lparr>osm_file = ''subs.csv.osm'',
         osm = [[(''attrs'', [(''id'', ''2'')]), (''tags'', [(''building'', ''yes'')])],
                [(''attrs'', [(''id'', ''1''), (''lat'', ''27.7''), (''lon'', ''85.3'')]), (''tags'', [(''building'', ''yes'')])]],
         osm_finished = True,
         geojson_file = ''subs.csv.geojson'',
         geojson = [[(''attrs'', [(''id'', ''2'')]), (''tags'', [(''building'', ''yes'')])],
                    [(''attrs'', [(''id'', ''1''), (''lat'', ''27.7''), (''lon'', ''85.3'')]), (''tags'', [(''building'', ''yes'')])]],
         geojson_finished = True,
         warnings = []\<rparr>)
   \<and> convert_csv no_epdb_csv ''subs.csv'' ''id,building''
     = (Inl (Error ''ModuleNotFoundError'' ''No module named epdb''),
        \<lparr>osm_file = ''subs.csv.osm'', osm = [], osm_finished = False,
         geojson_file = ''subs.csv.geojson'', geojson = [], geojson_finished = False,
         warnings = []\<rparr>)"
  by code_simp

end
